theory Spec2Isabelle
  imports Main "HOL-Library.Char_ord" "HOL-Library.List_Lexorder"
begin

section \<open>Strings (Go package strings, fmt)\<close>

definition nl :: char where "nl = CHR 0x0A"
definition dquote :: char where "dquote = CHR 0x22"
definition bslash :: char where "bslash = CHR 0x5C"

fun hasPrefix :: "string \<Rightarrow> string \<Rightarrow> bool" where
  "hasPrefix s [] = True"
| "hasPrefix [] (p # ps) = False"
| "hasPrefix (c # cs) (p # ps) = (c = p \<and> hasPrefix cs ps)"

fun index :: "string \<Rightarrow> string \<Rightarrow> nat option" where
  "index [] sub = (if sub = [] then Some 0 else None)"
| "index (c # cs) sub =
     (if hasPrefix (c # cs) sub then Some 0 else map_option Suc (index cs sub))"

definition contains :: "string \<Rightarrow> string \<Rightarrow> bool" where
  "contains s sub = (index s sub \<noteq> None)"

definition isSpace :: "char \<Rightarrow> bool" where
  "isSpace c = (c \<in> set [CHR 0x09, CHR 0x0A, CHR 0x0B, CHR 0x0C, CHR 0x0D, CHR 0x20])"

definition trimSpace :: "string \<Rightarrow> string" where
  "trimSpace s = rev (dropWhile isSpace (rev (dropWhile isSpace s)))"

definition lowerChar :: "char \<Rightarrow> char" where
  "lowerChar c =
     (case map_of (zip ''ABCDEFGHIJKLMNOPQRSTUVWXYZ'' ''abcdefghijklmnopqrstuvwxyz'') c of
        Some d \<Rightarrow> d | None \<Rightarrow> c)"

definition upperChar :: "char \<Rightarrow> char" where
  "upperChar c =
     (case map_of (zip ''abcdefghijklmnopqrstuvwxyz'' ''ABCDEFGHIJKLMNOPQRSTUVWXYZ'') c of
        Some d \<Rightarrow> d | None \<Rightarrow> c)"

definition toLower :: "string \<Rightarrow> string" where
  "toLower s = map lowerChar s"

fun join :: "string \<Rightarrow> string list \<Rightarrow> string" where
  "join sep [] = []"
| "join sep [x] = x"
| "join sep (x # y # ys) = x @ sep @ join sep (y # ys)"

definition digitChar :: "nat \<Rightarrow> char" where
  "digitChar d = ''0123456789'' ! d"

fun showNat :: "nat \<Rightarrow> string" where
  "showNat n = (if n < 10 then [digitChar n] else showNat (n div 10) @ [digitChar (n mod 10)])"

declare showNat.simps [simp del]

definition showInt :: "int \<Rightarrow> string" where
  "showInt i = (if i < 0 then CHR ''-'' # showNat (nat (- i)) else showNat (nat i))"

function replaceAll :: "string \<Rightarrow> string \<Rightarrow> string \<Rightarrow> string" where
  "replaceAll s old new =
     (if old = [] then s
      else case s of [] \<Rightarrow> []
        | c # cs \<Rightarrow> if hasPrefix s old then new @ replaceAll (drop (length old) s) old new
                    else c # replaceAll cs old new)"
  by pat_completeness auto
termination
  by (relation "measure (\<lambda>(s, old, new). length s)") (auto simp: neq_Nil_conv)

declare replaceAll.simps [simp del]

section \<open>JSON values\<close>

datatype jv = JNull | JBool bool | JInt int | JDec string | JStr string
  | JArr "jv list" | JObj "(string \<times> jv) list"

type_synonym jobj = "(string \<times> jv) list"

definition field :: "jobj \<Rightarrow> string \<Rightarrow> jv option" where
  "field m k = map_of m k"

definition strField :: "jobj \<Rightarrow> string \<Rightarrow> string option" where
  "strField m k = (case map_of m k of Some (JStr s) \<Rightarrow> Some s | _ \<Rightarrow> None)"

definition strOr :: "jobj \<Rightarrow> string \<Rightarrow> string" where
  "strOr m k = (case strField m k of Some s \<Rightarrow> s | None \<Rightarrow> [])"

definition objField :: "jobj \<Rightarrow> string \<Rightarrow> jobj option" where
  "objField m k = (case map_of m k of Some (JObj o') \<Rightarrow> Some o' | _ \<Rightarrow> None)"

definition arrField :: "jobj \<Rightarrow> string \<Rightarrow> jv list option" where
  "arrField m k = (case map_of m k of Some (JArr xs) \<Rightarrow> Some xs | _ \<Rightarrow> None)"

definition hexDigit :: "nat \<Rightarrow> char" where
  "hexDigit d = ''0123456789abcdef'' ! d"

definition jsonEscapeChar :: "char \<Rightarrow> string" where
  "jsonEscapeChar c =
     (if c = dquote then [bslash, dquote]
      else if c = bslash then [bslash, bslash]
      else if c = CHR 0x0A then [bslash, CHR ''n'']
      else if c = CHR 0x0D then [bslash, CHR ''r'']
      else if c = CHR 0x09 then [bslash, CHR ''t'']
      else if c = CHR ''<'' \<or> c = CHR ''>'' \<or> c = CHR ''&'' \<or> c < CHR 0x20
        then [bslash, CHR ''u'', CHR ''0'', CHR ''0'',
              hexDigit (of_char c div 16), hexDigit (of_char c mod 16)]
      else [c])"

definition jsonQuote :: "string \<Rightarrow> string" where
  "jsonQuote s = dquote # concat (map jsonEscapeChar s) @ [dquote]"

fun dedupKeys :: "(string \<times> 'a) list \<Rightarrow> (string \<times> 'a) list" where
  "dedupKeys [] = []"
| "dedupKeys ((k, v) # m) = (k, v) # dedupKeys (filter (\<lambda>kv. fst kv \<noteq> k) m)"

definition sortedEntries :: "(string \<times> 'a) list \<Rightarrow> (string \<times> 'a) list" where
  "sortedEntries m = sort_key fst (dedupKeys m)"

definition indentOf :: "nat \<Rightarrow> string" where
  "indentOf d = concat (replicate d ''  '')"

fun marshalAt :: "nat \<Rightarrow> jv \<Rightarrow> string" where
  "marshalAt d JNull = ''null''"
| "marshalAt d (JBool b) = (if b then ''true'' else ''false'')"
| "marshalAt d (JInt i) = showInt i"
| "marshalAt d (JDec t) = t"
| "marshalAt d (JStr s) = jsonQuote s"
| "marshalAt d (JArr xs) =
     (if xs = [] then ''[]''
      else ''['' @ [nl] @ indentOf (Suc d)
           @ join ('','' @ [nl] @ indentOf (Suc d)) (map (marshalAt (Suc d)) xs)
           @ [nl] @ indentOf d @ '']'')"
| "marshalAt d (JObj m) =
     (if m = [] then ''{}''
      else ''{'' @ [nl] @ indentOf (Suc d)
           @ join ('','' @ [nl] @ indentOf (Suc d))
               (map snd (sortedEntries (map (\<lambda>(k, v). (k, jsonQuote k @ '': '' @ marshalAt (Suc d) v)) m)))
           @ [nl] @ indentOf d @ ''}'')"

definition marshalIndent :: "jv \<Rightarrow> string" where
  "marshalIndent v = marshalAt 0 v"

fun marshal :: "jv \<Rightarrow> string" where
  "marshal JNull = ''null''"
| "marshal (JBool b) = (if b then ''true'' else ''false'')"
| "marshal (JInt i) = showInt i"
| "marshal (JDec t) = t"
| "marshal (JStr s) = jsonQuote s"
| "marshal (JArr xs) = ''['' @ join '','' (map marshal xs) @ '']''"
| "marshal (JObj m) =
     ''{'' @ join '','' (map snd (sortedEntries (map (\<lambda>(k, v). (k, jsonQuote k @ '':'' @ marshal v)) m))) @ ''}''"

section \<open>Service descriptors and tool protocol (tool_protocol.go)\<close>

record customLLMService =
  svcID :: string
  svcName :: string
  baseURL :: string
  apiKey :: string
  headers :: "(string \<times> string) list"
  models :: "string list"
  defaultModel :: string
  authType :: string
  provider :: string
  enabled :: bool
  contextLimit :: int
  toolCalling :: string

definition resolveToolCallingMode :: "customLLMService \<Rightarrow> string" where
  "resolveToolCallingMode cfg =
     (let mode = toLower (trimSpace (toolCalling cfg)) in
      if mode = ''native'' then (if provider cfg = ''anthropic'' then ''xml'' else ''native'')
      else if mode = ''xml'' then ''xml''
      else if provider cfg = ''openai'' then ''native''
      else ''xml'')"

section \<open>Request headers and their sanitisation\<close>

type_synonym header = "(string \<times> string list) list"

definition validHeaderFieldByte :: "char \<Rightarrow> bool" where
  "validHeaderFieldByte c =
     (c \<in> set (''abcdefghijklmnopqrstuvwxyzABCDEFGHIJKLMNOPQRSTUVWXYZ0123456789''
               @ ''!#$%&*+-.^_|~'' @ [CHR 0x27, CHR 0x60]))"

fun canonWords :: "bool \<Rightarrow> string \<Rightarrow> string" where
  "canonWords upper [] = []"
| "canonWords upper (c # cs) =
     (let c' = (if upper then upperChar c else lowerChar c)
      in c' # canonWords (c' = CHR ''-'') cs)"

definition canonicalMIMEHeaderKey :: "string \<Rightarrow> string" where
  "canonicalMIMEHeaderKey s = (if list_all validHeaderFieldByte s then canonWords True s else s)"

fun putEntry :: "(string \<times> 'a) list \<Rightarrow> string \<Rightarrow> 'a \<Rightarrow> (string \<times> 'a) list" where
  "putEntry [] k v = [(k, v)]"
| "putEntry ((k', v') # m) k v = (if k' = k then (k, v) # m else (k', v') # putEntry m k v)"

definition headerSet :: "header \<Rightarrow> string \<Rightarrow> string \<Rightarrow> header" where
  "headerSet h k v = putEntry h (canonicalMIMEHeaderKey k) [v]"

definition requestHeaders :: "customLLMService \<Rightarrow> header" where
  "requestHeaders config =
     (let h0 = headerSet [] ''Content-Type'' ''application/json'';
          h1 = (if provider config = ''anthropic''
                then headerSet (headerSet h0 ''x-api-key'' (apiKey config))
                       ''anthropic-version'' ''2023-06-01''
                else if authType config = ''apiKey'' \<or> authType config = ''bearer''
                then (if apiKey config \<noteq> [] then
                        headerSet h0 ''Authorization'' (''Bearer '' @ apiKey config) else h0)
                else if authType config = ''none'' then h0
                else (if apiKey config \<noteq> [] then
                        headerSet h0 ''Authorization'' (''Bearer '' @ apiKey config) else h0))
      in foldl (\<lambda>h kv. headerSet h (fst kv) (snd kv)) h1 (headers config))"

definition sensitiveHeaderNames :: "string list" where
  "sensitiveHeaderNames =
     [''authorization'', ''x-api-key'', ''api-key'', ''x-auth-token'', ''x-access-token'',
      ''cookie'', ''set-cookie'']"

definition redactValue :: "string \<Rightarrow> string \<Rightarrow> string" where
  "redactValue lk vv =
     (if lk = ''authorization'' \<and> hasPrefix (toLower (trimSpace vv)) ''bearer ''
      then ''Bearer <redacted>'' else ''<redacted>'')"

definition sanitizeEntry :: "string \<times> string list \<Rightarrow> header" where
  "sanitizeEntry kv =
     (let lk = toLower (trimSpace (fst kv)) in
      if lk = [] then []
      else if lk \<in> set sensitiveHeaderNames then [(fst kv, map (redactValue lk) (snd kv))]
      else [kv])"

definition sanitizeRequestHeaders :: "header \<Rightarrow> header" where
  "sanitizeRequestHeaders h = concat (map sanitizeEntry h)"

definition headerJSON :: "header \<Rightarrow> jv" where
  "headerJSON h = JObj (map (\<lambda>kv. (fst kv, JArr (map JStr (snd kv)))) h)"

definition requestHeadersJSON :: "customLLMService \<Rightarrow> string" where
  "requestHeadersJSON config =
     marshalIndent (headerJSON (sanitizeRequestHeaders (requestHeaders config)))"

section \<open>Context preparation (prepareMessages)\<close>

definition tokensOf :: "jobj \<Rightarrow> int" where
  "tokensOf msg = (case strField msg ''content'' of Some c \<Rightarrow> int (length c) div 4 | None \<Rightarrow> 0)"

definition countTokens :: "jobj list \<Rightarrow> int" where
  "countTokens msgs = sum_list (map tokensOf msgs)"

fun keepTail :: "int \<Rightarrow> int \<Rightarrow> jobj list \<Rightarrow> jobj list" where
  "keepTail limit cur [] = []"
| "keepTail limit cur (m # ms) =
     (if cur + tokensOf m > limit then []
      else keepTail limit (cur + tokensOf m) ms @ [m])"

definition truncationNotice :: "nat \<Rightarrow> jobj" where
  "truncationNotice n =
     [(''role'', JStr ''system''),
      (''content'', JStr (''[Context Truncation: '' @ showNat n
         @ '' messages from the middle of the conversation have been removed to fit the token limit. Please focus on the latest messages.]''))]"

definition effectiveLimit :: "int \<Rightarrow> int" where
  "effectiveLimit limit = (if limit \<le> 0 then 100000 else limit)"

definition prepareMessages :: "jobj list \<Rightarrow> int \<Rightarrow> jobj list" where
  "prepareMessages messages limit0 =
     (let limit = effectiveLimit limit0 in
      if countTokens messages \<le> limit then messages
      else if length messages \<le> 3 then messages
      else
        let firstMsg = messages ! 0;
            firstTokens = tokensOf firstMsg;
            secondMsg = messages ! 1;
            secondTokens = tokensOf secondMsg;
            keepSecond = (firstTokens + secondTokens < limit div 2);
            result = (if keepSecond then [firstMsg, secondMsg] else [firstMsg]);
            currentTokens = (if keepSecond then firstTokens + secondTokens else firstTokens);
            keptTailMessages = keepTail limit currentTokens (rev (drop (length result) messages));
            skippedCount = length messages - length result - length keptTailMessages
        in result
           @ (if length keptTailMessages < length messages - length result \<and> skippedCount > 0
              then [truncationNotice skippedCount] else [])
           @ keptTailMessages)"

section \<open>Tool calls and the XML dialect (tool_calling.go)\<close>

datatype error = Canceled | Failure string | Panic string

definition errorText :: "error \<Rightarrow> string" where
  "errorText e = (case e of Canceled \<Rightarrow> ''context canceled'' | Failure m \<Rightarrow> m | Panic m \<Rightarrow> m)"

record toolCall =
  tcID :: string
  tcName :: string
  tcArgs :: jobj

record toolResult =
  trToolCallID :: string
  trName :: string
  trContent :: string
  trIsError :: bool

lemma hasPrefix_length: "hasPrefix s p \<Longrightarrow> length p \<le> length s"
  by (induction s p rule: hasPrefix.induct) auto

lemma index_bound: "index s sub = Some k \<Longrightarrow> k + length sub \<le> length s"
proof (induction s arbitrary: k)
  case Nil
  then show ?case by (simp split: if_splits)
next
  case (Cons c cs)
  show ?case
  proof (cases "hasPrefix (c # cs) sub")
    case True
    with Cons.prems hasPrefix_length [OF True] show ?thesis by simp
  next
    case False
    with Cons.prems obtain j where "index cs sub = Some j" and "k = Suc j" by auto
    with Cons.IH [of j] show ?thesis by simp
  qed
qed

fun indexAny :: "string \<Rightarrow> string \<Rightarrow> nat option" where
  "indexAny [] chars = None"
| "indexAny (c # cs) chars =
     (if c \<in> set chars then Some 0 else map_option Suc (indexAny cs chars))"

definition tagOpen :: "string \<Rightarrow> string" where
  "tagOpen tag = ''<'' @ tag @ ''>''"

definition tagClose :: "string \<Rightarrow> string" where
  "tagClose tag = ''</'' @ tag @ ''>''"

definition extractTagInner :: "string \<Rightarrow> string \<Rightarrow> string option" where
  "extractTagInner s tag =
     (case index s (tagOpen tag) of
        None \<Rightarrow> None
      | Some st \<Rightarrow>
          (let start = st + length (tagOpen tag) in
           case index (drop start s) (tagClose tag) of
             None \<Rightarrow> None
           | Some e \<Rightarrow> Some (take e (drop start s))))"

definition extractTagValue :: "string \<Rightarrow> string \<Rightarrow> string option" where
  "extractTagValue s tag = extractTagInner s tag"

function extractToolCallBlocks :: "string \<Rightarrow> string list" where
  "extractToolCallBlocks text =
     (case index text ''<tool_call>'' of
        None \<Rightarrow> []
      | Some start \<Rightarrow>
          (case index (drop start text) ''</tool_call>'' of
             None \<Rightarrow> []
           | Some e \<Rightarrow>
               take (e + length ''</tool_call>'') (drop start text)
               # extractToolCallBlocks (drop (start + e + length ''</tool_call>'') text)))"
  by pat_completeness auto
termination
proof (relation "measure length")
  show "wf (measure length)" by simp
next
  fix s :: string and st e
  assume "index s ''<tool_call>'' = Some st"
  from index_bound [OF this]
  show "(drop (st + e + length ''</tool_call>'') s, s) \<in> measure length"
    by simp
qed

declare extractToolCallBlocks.simps [simp del]

function parseArgsLoop :: "string \<Rightarrow> (string \<times> string) list \<Rightarrow> (string \<times> string) list" where
  "parseArgsLoop s out =
     (case index s ''<'' of
        None \<Rightarrow> out
      | Some openStart \<Rightarrow>
          if openStart + 1 \<ge> length s then out
          else if s ! (openStart + 1) = CHR ''/'' then parseArgsLoop (drop (openStart + 2) s) out
          else
            (case index (drop openStart s) ''>'' of
               None \<Rightarrow> out
             | Some oe \<Rightarrow>
                 (let openEnd = oe + openStart;
                      tagName0 = trimSpace (take (openEnd - (openStart + 1)) (drop (openStart + 1) s));
                      tagName = (case indexAny tagName0 [CHR 0x20, CHR 0x09, CHR 0x0D, CHR 0x0A] of
                                   Some sp \<Rightarrow> take sp tagName0 | None \<Rightarrow> tagName0)
                  in if tagName = [] then parseArgsLoop (drop (openEnd + 1) s) out
                     else
                       (case index (drop (openEnd + 1) s) (tagClose tagName) of
                          None \<Rightarrow> out
                        | Some cs \<Rightarrow>
                            parseArgsLoop
                              (drop (cs + openEnd + 1 + length (tagClose tagName)) s)
                              (putEntry out tagName (take cs (drop (openEnd + 1) s)))))))"
  by pat_completeness auto
termination
proof (relation "measure (\<lambda>(s, out). length s)")
  show "wf (measure (\<lambda>(s, out). length s))" by simp
next
  fix s :: string and out :: "(string \<times> string) list" and openStart
  assume "index s ''<'' = Some openStart"
  from index_bound [OF this]
  show "((drop (openStart + 2) s, out), (s, out)) \<in> measure (\<lambda>(s, out). length s)"
    by simp
next
  fix s :: string and out :: "(string \<times> string) list" and openStart oe openEnd
  assume "index s ''<'' = Some openStart" and "openEnd = oe + openStart"
  from index_bound [OF this(1)] this(2)
  show "((drop (openEnd + 1) s, out), (s, out)) \<in> measure (\<lambda>(s, out). length s)"
    by simp
next
  fix s :: string and out :: "(string \<times> string) list" and openStart oe openEnd cs tagName v
  assume "index s ''<'' = Some openStart" and "openEnd = oe + openStart"
  from index_bound [OF this(1)] this(2)
  show "((drop (cs + openEnd + 1 + length (tagClose tagName)) s, putEntry out tagName v), (s, out))
          \<in> measure (\<lambda>(s, out). length s)"
    by simp
qed

declare parseArgsLoop.simps [simp del]

definition parseArgsFirstLevel :: "string \<Rightarrow> (string \<times> string) list" where
  "parseArgsFirstLevel argsInner = parseArgsLoop argsInner []"

definition parseToolCallBlock :: "string \<Rightarrow> error + toolCall" where
  "parseToolCallBlock block =
     (case extractTagInner block ''tool_call'' of
        None \<Rightarrow> Inl (Failure ''invalid tool_call block'')
      | Some inner \<Rightarrow>
          (case extractTagValue inner ''name'' of
             None \<Rightarrow> Inl (Failure ''missing tool name'')
           | Some name \<Rightarrow>
               if trimSpace name = [] then Inl (Failure ''missing tool name'')
               else
                 (let argsInner = (case extractTagInner inner ''args'' of Some a \<Rightarrow> a | None \<Rightarrow> []);
                      argsRaw = parseArgsFirstLevel argsInner
                  in Inr \<lparr>tcID = [], tcName = trimSpace name,
                          tcArgs = map (\<lambda>kv. (fst kv, JStr (snd kv))) argsRaw\<rparr>)))"

fun parseBlocks :: "string list \<Rightarrow> error + toolCall list" where
  "parseBlocks [] = Inr []"
| "parseBlocks (b # bs) =
     (case parseToolCallBlock b of
        Inl e \<Rightarrow> Inl e
      | Inr call \<Rightarrow> (case parseBlocks bs of Inl e \<Rightarrow> Inl e | Inr calls \<Rightarrow> Inr (call # calls)))"

definition parseXMLToolCallsFromText :: "string \<Rightarrow> error + toolCall list" where
  "parseXMLToolCallsFromText text = parseBlocks (extractToolCallBlocks text)"

definition xmlEscapeChar :: "char \<Rightarrow> string" where
  "xmlEscapeChar c =
     (if c = CHR ''&'' then ''&amp;''
      else if c = CHR ''<'' then ''&lt;''
      else if c = CHR ''>'' then ''&gt;''
      else if c = dquote then ''&quot;''
      else if c = CHR 0x27 then ''&apos;''
      else [c])"

definition xmlEscape :: "string \<Rightarrow> string" where
  "xmlEscape s = concat (map xmlEscapeChar s)"

definition toString :: "jv \<Rightarrow> string" where
  "toString v =
     (case v of
        JStr t \<Rightarrow> t
      | JInt i \<Rightarrow> showInt i
      | JDec t \<Rightarrow> t
      | JBool b \<Rightarrow> (if b then ''true'' else ''false'')
      | _ \<Rightarrow> marshal v)"

definition containsAny :: "string \<Rightarrow> string \<Rightarrow> bool" where
  "containsAny s chars = (indexAny s chars \<noteq> None)"

definition argTranscript :: "jobj \<Rightarrow> string \<Rightarrow> string" where
  "argTranscript args k =
     (let v = toString (case map_of args k of Some x \<Rightarrow> x | None \<Rightarrow> JNull) in
      ''    <'' @ xmlEscape k @ ''>''
      @ (if containsAny v ''<>&''
         then ''<![CDATA['' @ replaceAll v '']]>'' '']]]]><![CDATA[>'' @ '']]>''
         else xmlEscape v)
      @ ''</'' @ xmlEscape k @ ''>'' @ [nl])"

definition callTranscript :: "toolCall \<Rightarrow> string" where
  "callTranscript c =
     ''<tool_call>'' @ [nl] @ ''  <name>'' @ xmlEscape (trimSpace (tcName c)) @ ''</name>'' @ [nl]
     @ ''  <args>'' @ [nl]
     @ concat (map (argTranscript (tcArgs c)) (sort (map fst (dedupKeys (tcArgs c)))))
     @ ''  </args>'' @ [nl] @ ''</tool_call>''"

definition buildToolCallTranscriptXML :: "toolCall list \<Rightarrow> string" where
  "buildToolCallTranscriptXML calls = join [nl] (map callTranscript calls)"

definition resultTranscript :: "toolResult \<Rightarrow> string" where
  "resultTranscript r =
     ''STEP: execute_tool'' @ [nl] @ ''name: '' @ trName r @ [nl]
     @ ''call_id: '' @ trToolCallID r @ [nl] @ ''result:'' @ [nl] @ trContent r"

definition buildToolResultsTranscript :: "toolResult list \<Rightarrow> string" where
  "buildToolResultsTranscript results =
     (if results = [] then [] else join ([nl] @ ''---'' @ [nl]) (map resultTranscript results))"

section \<open>Service state and environment\<close>

record todoItem =
  todoID :: string
  todoContent :: string
  todoStatus :: string
  todoPriority :: string

record session =
  sessID :: string
  title :: string
  summary :: string
  createdAt :: int
  updatedAt :: int
  messages :: "jobj list"
  parentID :: string
  todos :: "todoItem list"

text \<open>
  Calls that leave the process: the service methods that touch the file system or run a
  shell. Every call is appended to the \<open>effects\<close> log of the state; its outcome is given
  by the environment and may depend on the calls made before.
\<close>

datatype extop =
    FindFilesByName string
  | GetFileContent string
  | GetFiles string
  | RunCommand string
  | SaveFileContent string string

text \<open>
  Outcome of one HTTP round trip: the request could not be created, the transport
  failed, the body could not be read, or a response arrived with its status, its body
  and the result of decoding the body as a JSON object.
\<close>

datatype httpOutcome =
    CreateError string
  | TransportError string
  | ReadError string
  | Response int string "string + jobj"

datatype ctx = Background | WithCancel nat

record env =
  clockAt :: "nat \<Rightarrow> int"
  ctxDone :: "nat \<Rightarrow> bool"
  httpDo :: "nat \<Rightarrow> httpOutcome"
  unmarshalArgs :: "string \<Rightarrow> string + jobj"
  findFilesByName :: "extop list \<Rightarrow> string \<Rightarrow> string + string list"
  getFileContent :: "extop list \<Rightarrow> string \<Rightarrow> string + string"
  getFiles :: "extop list \<Rightarrow> string \<Rightarrow> string + (string \<times> string) list"
  runCommand :: "extop list \<Rightarrow> string \<Rightarrow> (string \<times> string) + string"
  saveFileContent :: "extop list \<Rightarrow> string \<Rightarrow> string \<Rightarrow> string option"
  promptXML :: string
  promptNative :: string
  planRules :: string
  actRules :: string
  projectPrompt :: "string option"

record world =
  sessions :: "string \<rightharpoonup> session"
  config :: jobj
  cancelFuncs :: "string \<rightharpoonup> nat"
  cancelled :: "nat set"
  nextHandle :: nat
  tick :: nat
  requests :: nat
  effects :: "extop list"

definition timeNow :: "env \<Rightarrow> world \<Rightarrow> int \<times> world" where
  "timeNow e w = (clockAt e (tick w), w\<lparr>tick := Suc (tick w)\<rparr>)"

definition unixMilli :: "int \<Rightarrow> int" where
  "unixMilli t = t div 1000000"

definition logOp :: "extop \<Rightarrow> world \<Rightarrow> world" where
  "logOp op w = w\<lparr>effects := effects w @ [op]\<rparr>"

definition ctxIsDone :: "env \<Rightarrow> ctx \<Rightarrow> world \<Rightarrow> bool" where
  "ctxIsDone e c w =
     (case c of Background \<Rightarrow> False
      | WithCancel h \<Rightarrow> h \<in> cancelled w \<or> ctxDone e (requests w))"

definition GetSession :: "world \<Rightarrow> string \<Rightarrow> error + session" where
  "GetSession w sessionID =
     (case sessions w sessionID of
        None \<Rightarrow> Inl (Failure (''session not found: '' @ sessionID))
      | Some s \<Rightarrow> Inr s)"

definition UpdateSessionTodos :: "env \<Rightarrow> string \<Rightarrow> todoItem list \<Rightarrow> world \<Rightarrow> world" where
  "UpdateSessionTodos e sessionID ts w =
     (case sessions w sessionID of
        None \<Rightarrow> w
      | Some s \<Rightarrow>
          (let (t, w1) = timeNow e w
           in w1\<lparr>sessions := (sessions w1)(sessionID \<mapsto> s\<lparr>todos := ts, updatedAt := unixMilli t\<rparr>)\<rparr>))"

section \<open>Tool registry and handlers\<close>

datatype toolHandler =
    SearchFilesTool | ReadFileTool | ListFilesTool | RunCommandTool
  | SaveFileTool | GitStatusTool | GitDiffTool | ManageTodoTool

definition specName :: "toolHandler \<Rightarrow> string" where
  "specName h =
     (case h of
        SearchFilesTool \<Rightarrow> ''search_files''
      | ReadFileTool \<Rightarrow> ''read_file''
      | ListFilesTool \<Rightarrow> ''list_files''
      | RunCommandTool \<Rightarrow> ''run_command''
      | SaveFileTool \<Rightarrow> ''save_file''
      | GitStatusTool \<Rightarrow> ''git_status''
      | GitDiffTool \<Rightarrow> ''git_diff''
      | ManageTodoTool \<Rightarrow> ''manage_todo'')"

definition specDescription :: "toolHandler \<Rightarrow> string" where
  "specDescription h =
     (case h of
        SearchFilesTool \<Rightarrow> ''Search for files by name.''
      | ReadFileTool \<Rightarrow> ''Read the content of a file.''
      | ListFilesTool \<Rightarrow> ''List files in a directory.''
      | RunCommandTool \<Rightarrow> ''Execute a shell command.''
      | SaveFileTool \<Rightarrow> ''Save content to a file.''
      | GitStatusTool \<Rightarrow> ''Check git status.''
      | GitDiffTool \<Rightarrow> ''Check git diff.''
      | ManageTodoTool \<Rightarrow> ''Manage session todo list.'')"

definition typed :: "string \<Rightarrow> jv" where
  "typed t = JObj [(''type'', JStr t)]"

definition objectSchema :: "jobj \<Rightarrow> string list option \<Rightarrow> jv" where
  "objectSchema props req =
     JObj ([(''type'', JStr ''object''), (''properties'', JObj props)]
           @ (case req of None \<Rightarrow> [] | Some r \<Rightarrow> [(''required'', JArr (map JStr r))])
           @ [(''additionalProperties'', JBool False)])"

definition specParameters :: "toolHandler \<Rightarrow> jv" where
  "specParameters h =
     (case h of
        SearchFilesTool \<Rightarrow> objectSchema [(''query'', typed ''string'')] (Some [''query''])
      | ReadFileTool \<Rightarrow> objectSchema [(''path'', typed ''string'')] (Some [''path''])
      | ListFilesTool \<Rightarrow> objectSchema [(''path'', typed ''string'')] (Some [''path''])
      | RunCommandTool \<Rightarrow> objectSchema [(''command'', typed ''string'')] (Some [''command''])
      | SaveFileTool \<Rightarrow>
          objectSchema [(''path'', typed ''string''), (''content'', typed ''string'')]
            (Some [''path'', ''content''])
      | GitStatusTool \<Rightarrow> objectSchema [] None
      | GitDiffTool \<Rightarrow> objectSchema [(''staged'', typed ''boolean'')] None
      | ManageTodoTool \<Rightarrow>
          objectSchema
            [(''action'', JObj [(''type'', JStr ''string''),
                (''enum'', JArr (map JStr [''add'', ''update'', ''delete'', ''list'']))]),
             (''content'', typed ''string''),
             (''id'', typed ''string''),
             (''status'', JObj [(''type'', JStr ''string''),
                (''enum'', JArr (map JStr [''pending'', ''in_progress'', ''completed'']))])]
            (Some [''action'']))"

definition AllowedInPlanMode :: "toolHandler \<Rightarrow> bool" where
  "AllowedInPlanMode h =
     (case h of
        SearchFilesTool \<Rightarrow> True
      | ReadFileTool \<Rightarrow> True
      | ListFilesTool \<Rightarrow> True
      | RunCommandTool \<Rightarrow> False
      | SaveFileTool \<Rightarrow> False
      | GitStatusTool \<Rightarrow> True
      | GitDiffTool \<Rightarrow> True
      | ManageTodoTool \<Rightarrow> True)"

definition newToolRegistry :: "toolHandler list" where
  "newToolRegistry =
     [SearchFilesTool, ReadFileTool, ListFilesTool, RunCommandTool,
      SaveFileTool, GitStatusTool, GitDiffTool, ManageTodoTool]"

definition registryGet :: "string \<Rightarrow> toolHandler option" where
  "registryGet name = find (\<lambda>h. specName h = name) newToolRegistry"

definition OpenAITools :: "jv list" where
  "OpenAITools =
     map (\<lambda>h. JObj [(''type'', JStr ''function''),
                     (''function'', JObj [(''name'', JStr (specName h)),
                                          (''description'', JStr (specDescription h)),
                                          (''parameters'', specParameters h)])])
       (sort_key specName newToolRegistry)"

definition requireStringArg :: "jobj \<Rightarrow> string \<Rightarrow> error + string" where
  "requireStringArg args k =
     (case map_of args k of
        None \<Rightarrow> Inl (Failure (''missing required arg: '' @ k))
      | Some JNull \<Rightarrow> Inl (Failure (''missing required arg: '' @ k))
      | Some (JStr s) \<Rightarrow> Inr s
      | Some _ \<Rightarrow> Inl (Failure (''arg '' @ k @ '' must be a string'')))"

definition optionalBoolArg :: "jobj \<Rightarrow> string \<Rightarrow> bool \<Rightarrow> error + bool" where
  "optionalBoolArg args k def =
     (case map_of args k of
        None \<Rightarrow> Inr def
      | Some JNull \<Rightarrow> Inr def
      | Some (JBool b) \<Rightarrow> Inr b
      | Some (JStr t) \<Rightarrow>
          if toLower (trimSpace t) = ''true'' then Inr True
          else if toLower (trimSpace t) = ''false'' then Inr False
          else Inl (Failure (''arg '' @ k @ '' must be true|false''))
      | Some _ \<Rightarrow> Inl (Failure (''arg '' @ k @ '' must be true|false'')))"

definition searchFilesExecute :: "env \<Rightarrow> jobj \<Rightarrow> world \<Rightarrow> (error + string) \<times> world" where
  "searchFilesExecute e args w =
     (case requireStringArg args ''query'' of
        Inl err \<Rightarrow> (Inl err, w)
      | Inr query \<Rightarrow>
          (case findFilesByName e (effects w) query of
             Inl m \<Rightarrow> (Inl (Failure m), logOp (FindFilesByName query) w)
           | Inr files \<Rightarrow> (Inr (join [nl] files), logOp (FindFilesByName query) w)))"

definition readFileExecute :: "env \<Rightarrow> jobj \<Rightarrow> world \<Rightarrow> (error + string) \<times> world" where
  "readFileExecute e args w =
     (case requireStringArg args ''path'' of
        Inl err \<Rightarrow> (Inl err, w)
      | Inr path \<Rightarrow>
          (case getFileContent e (effects w) path of
             Inl m \<Rightarrow> (Inl (Failure m), logOp (GetFileContent path) w)
           | Inr fileContent \<Rightarrow>
               (Inr (if length fileContent > 5000
                     then take 5000 fileContent @ ''... (truncated)'' else fileContent),
                logOp (GetFileContent path) w)))"

definition listFilesExecute :: "env \<Rightarrow> jobj \<Rightarrow> world \<Rightarrow> (error + string) \<times> world" where
  "listFilesExecute e args w =
     (case requireStringArg args ''path'' of
        Inl err \<Rightarrow> (Inl err, w)
      | Inr path \<Rightarrow>
          (case getFiles e (effects w) path of
             Inl m \<Rightarrow> (Inl (Failure m), logOp (GetFiles path) w)
           | Inr files \<Rightarrow>
               (Inr (join [nl] (map (\<lambda>f. fst f @ '' ('' @ snd f @ '')'') files)),
                logOp (GetFiles path) w)))"

definition runCommandExecute :: "env \<Rightarrow> jobj \<Rightarrow> world \<Rightarrow> (error + string) \<times> world" where
  "runCommandExecute e args w =
     (case requireStringArg args ''command'' of
        Inl err \<Rightarrow> (Inl err, w)
      | Inr command \<Rightarrow>
          (case runCommand e (effects w) command of
             Inl (m, output) \<Rightarrow>
               (Inl (Failure (m @ [nl] @ ''Output: '' @ output)), logOp (RunCommand command) w)
           | Inr output \<Rightarrow> (Inr output, logOp (RunCommand command) w)))"

definition saveFileExecute :: "env \<Rightarrow> jobj \<Rightarrow> world \<Rightarrow> (error + string) \<times> world" where
  "saveFileExecute e args w =
     (case requireStringArg args ''path'' of
        Inl err \<Rightarrow> (Inl err, w)
      | Inr path \<Rightarrow>
          (case requireStringArg args ''content'' of
             Inl err \<Rightarrow> (Inl err, w)
           | Inr content \<Rightarrow>
               (case saveFileContent e (effects w) path content of
                  Some m \<Rightarrow> (Inl (Failure m), logOp (SaveFileContent path content) w)
                | None \<Rightarrow> (Inr ''File saved successfully'', logOp (SaveFileContent path content) w))))"

definition gitStatusExecute :: "env \<Rightarrow> jobj \<Rightarrow> world \<Rightarrow> (error + string) \<times> world" where
  "gitStatusExecute e args w =
     (case runCommand e (effects w) ''git status --short'' of
        Inl (m, output) \<Rightarrow> (Inl (Failure m), logOp (RunCommand ''git status --short'') w)
      | Inr output \<Rightarrow>
          (Inr (if trimSpace output = [] then ''Clean working tree'' else trimSpace output),
           logOp (RunCommand ''git status --short'') w))"

definition gitDiffExecute :: "env \<Rightarrow> jobj \<Rightarrow> world \<Rightarrow> (error + string) \<times> world" where
  "gitDiffExecute e args w =
     (case optionalBoolArg args ''staged'' False of
        Inl err \<Rightarrow> (Inl err, w)
      | Inr staged \<Rightarrow>
          (let command = (if staged then ''git diff --cached'' else ''git diff'') in
           case runCommand e (effects w) command of
             Inl (m, output) \<Rightarrow> (Inl (Failure m), logOp (RunCommand command) w)
           | Inr output \<Rightarrow>
               (Inr (if trimSpace output = [] then ''No changes'' else trimSpace output),
                logOp (RunCommand command) w)))"

fun setStatusFirst :: "string \<Rightarrow> (todoItem \<Rightarrow> todoItem) \<Rightarrow> todoItem list \<Rightarrow> todoItem list option" where
  "setStatusFirst i f [] = None"
| "setStatusFirst i f (t # ts) =
     (if todoID t = i then Some (f t # ts)
      else map_option (\<lambda>r. t # r) (setStatusFirst i f ts))"

definition todoLine :: "todoItem \<Rightarrow> string" where
  "todoLine t =
     (if todoStatus t = ''completed'' then ''[x]''
      else if todoStatus t = ''in_progress'' then ''[/]'' else ''[ ]'')
     @ '' '' @ todoContent t @ '' (ID: '' @ todoID t @ '')''"

definition manageTodoExecute ::
  "env \<Rightarrow> string \<Rightarrow> jobj \<Rightarrow> world \<Rightarrow> (error + string) \<times> world" where
  "manageTodoExecute e sessionID args w =
     (case requireStringArg args ''action'' of
        Inl err \<Rightarrow> (Inl err, w)
      | Inr action \<Rightarrow>
          (case GetSession w sessionID of
             Inl err \<Rightarrow> (Inl (Failure ''session not found''), w)
           | Inr sess \<Rightarrow>
               if action = ''add'' then
                 (case requireStringArg args ''content'' of
                    Inl err \<Rightarrow> (Inl err, w)
                  | Inr content \<Rightarrow>
                      (let (t, w1) = timeNow e w;
                           newTodo = \<lparr>todoID = ''todo_'' @ showInt t, todoContent = content,
                                      todoStatus = ''pending'', todoPriority = ''medium''\<rparr>
                       in (Inr (''Todo added: '' @ content @ '' (ID: '' @ todoID newTodo @ '')''),
                           UpdateSessionTodos e sessionID (todos sess @ [newTodo]) w1)))
               else if action = ''update'' then
                 (case requireStringArg args ''id'' of
                    Inl err \<Rightarrow> (Inl err, w)
                  | Inr i \<Rightarrow>
                      (let status = strOr args ''status'';
                           hasStatus = (map_of args ''status'' \<noteq> None)
                       in case setStatusFirst i
                                 (\<lambda>t. if hasStatus \<and> trimSpace status \<noteq> []
                                      then t\<lparr>todoStatus := status\<rparr> else t) (todos sess) of
                            None \<Rightarrow> (Inl (Failure (''todo '' @ i @ '' not found'')), w)
                          | Some ts \<Rightarrow>
                              (Inr (''Todo updated: '' @ i), UpdateSessionTodos e sessionID ts w)))
               else if action = ''delete'' then
                 (case requireStringArg args ''id'' of
                    Inl err \<Rightarrow> (Inl err, w)
                  | Inr i \<Rightarrow>
                      if list_ex (\<lambda>t. todoID t = i) (todos sess)
                      then (Inr (''Todo deleted: '' @ i),
                            UpdateSessionTodos e sessionID
                              (filter (\<lambda>t. todoID t \<noteq> i) (todos sess)) w)
                      else (Inl (Failure (''todo '' @ i @ '' not found'')), w))
               else if action = ''list'' then
                 (if todos sess = [] then (Inr ''No todos in this session.'', w)
                  else (Inr (join [nl] (map todoLine (todos sess))), w))
               else (Inl (Failure ''unknown action. Use add, update, delete, or list.''), w)))"

definition Execute ::
  "env \<Rightarrow> string \<Rightarrow> toolHandler \<Rightarrow> jobj \<Rightarrow> world \<Rightarrow> (error + string) \<times> world" where
  "Execute e sessionID h args w =
     (case h of
        SearchFilesTool \<Rightarrow> searchFilesExecute e args w
      | ReadFileTool \<Rightarrow> readFileExecute e args w
      | ListFilesTool \<Rightarrow> listFilesExecute e args w
      | RunCommandTool \<Rightarrow> runCommandExecute e args w
      | SaveFileTool \<Rightarrow> saveFileExecute e args w
      | GitStatusTool \<Rightarrow> gitStatusExecute e args w
      | GitDiffTool \<Rightarrow> gitDiffExecute e args w
      | ManageTodoTool \<Rightarrow> manageTodoExecute e sessionID args w)"

definition executeToolCall ::
  "env \<Rightarrow> string \<Rightarrow> toolCall \<Rightarrow> bool \<Rightarrow> world \<Rightarrow> toolResult \<times> world" where
  "executeToolCall e sessionID call planMode w =
     (let (callID, w0) =
            (if tcID call = [] then (let (t, w') = timeNow e w in (''toolcall_'' @ showInt t, w'))
             else (tcID call, w))
      in case registryGet (tcName call) of
           None \<Rightarrow>
             (\<lparr>trToolCallID = callID, trName = tcName call,
               trContent = ''Unknown tool: '' @ tcName call, trIsError = True\<rparr>, w0)
         | Some h \<Rightarrow>
             if planMode \<and> \<not> AllowedInPlanMode h then
               (\<lparr>trToolCallID = callID, trName = tcName call,
                 trContent = ''Tool not allowed in PLAN mode: '' @ tcName call,
                 trIsError = True\<rparr>, w0)
             else
               (case Execute e sessionID h (tcArgs call) w0 of
                  (Inl err, w1) \<Rightarrow>
                    (\<lparr>trToolCallID = callID, trName = tcName call,
                      trContent = ''Error: '' @ errorText err, trIsError = True\<rparr>, w1)
                | (Inr out, w1) \<Rightarrow>
                    (\<lparr>trToolCallID = callID, trName = tcName call,
                      trContent = out, trIsError = False\<rparr>, w1)))"

definition planModeOf :: "string \<Rightarrow> bool" where
  "planModeOf message = hasPrefix message ''[MODE: PLAN]''"

section \<open>Native tool calls (parseOpenAIToolCalls)\<close>

definition parseArguments :: "env \<Rightarrow> string \<Rightarrow> string \<Rightarrow> jv option \<Rightarrow> error + jobj" where
  "parseArguments e what name argsAny =
     (case argsAny of
        Some (JStr a) \<Rightarrow>
          if trimSpace a \<noteq> [] then
            (case unmarshalArgs e a of
               Inl m \<Rightarrow> Inl (Failure (''failed to parse '' @ what @ '' for '' @ name @ '': '' @ m))
             | Inr obj \<Rightarrow> Inr obj)
          else Inr []
      | Some (JObj a) \<Rightarrow> Inr a
      | _ \<Rightarrow> Inr [])"

fun parseRawCalls :: "env \<Rightarrow> jobj list \<Rightarrow> error + toolCall list" where
  "parseRawCalls e [] = Inr []"
| "parseRawCalls e (m # ms) =
     (let ident = strOr m ''id'';
          fn = (case objField m ''function'' of Some f \<Rightarrow> f | None \<Rightarrow> []);
          name = strOr fn ''name''
      in case parseArguments e ''tool arguments'' name (map_of fn ''arguments'') of
           Inl err \<Rightarrow> Inl err
         | Inr args \<Rightarrow>
             (case parseRawCalls e ms of
                Inl err \<Rightarrow> Inl err
              | Inr calls \<Rightarrow>
                  Inr (if trimSpace name = [] then calls
                       else \<lparr>tcID = ident, tcName = name, tcArgs = args\<rparr> # calls)))"

definition objectsOf :: "jv list \<Rightarrow> jobj list" where
  "objectsOf items = concat (map (\<lambda>x. case x of JObj m \<Rightarrow> [m] | _ \<Rightarrow> []) items)"

definition parseFunctionCall :: "env \<Rightarrow> jobj \<Rightarrow> error + (toolCall list \<times> jobj list)" where
  "parseFunctionCall e message =
     (case map_of message ''function_call'' of
        Some (JObj fc) \<Rightarrow>
          (let name = strOr fc ''name'' in
           case parseArguments e ''function_call arguments'' name (map_of fc ''arguments'') of
             Inl err \<Rightarrow> Inl err
           | Inr args \<Rightarrow>
               if trimSpace name = [] then Inr ([], [])
               else Inr ([\<lparr>tcID = [], tcName = name, tcArgs = args\<rparr>],
                         [[(''function_call'', JObj fc)]]))
      | _ \<Rightarrow> Inr ([], []))"

definition parseOpenAIToolCalls :: "env \<Rightarrow> jobj \<Rightarrow> error + (toolCall list \<times> jobj list)" where
  "parseOpenAIToolCalls e message =
     (case map_of message ''tool_calls'' of
        None \<Rightarrow> parseFunctionCall e message
      | Some JNull \<Rightarrow> parseFunctionCall e message
      | Some (JArr items) \<Rightarrow>
          (let rawSlice = objectsOf items in
           if rawSlice = [] then Inr ([], [])
           else (case parseRawCalls e rawSlice of
                   Inl err \<Rightarrow> Inl err
                 | Inr calls \<Rightarrow> Inr (calls, rawSlice)))
      | Some _ \<Rightarrow> Inr ([], []))"

section \<open>The turn loop (callLLMService)\<close>

record loopState =
  currentMessages :: "jobj list"
  rawTurns :: "jobj list"
  responseBuilder :: string

datatype turnOutcome =
    Return string "jobj list" "error option"
  | Continue loopState

fun anthropicSplit :: "jobj list \<Rightarrow> error + (string \<times> jobj list)" where
  "anthropicSplit [] = Inr ([], [])"
| "anthropicSplit (msg # rest) =
     (case map_of msg ''role'' of
        Some (JStr role) \<Rightarrow>
          (case anthropicSplit rest of
             Inl err \<Rightarrow> Inl err
           | Inr (sys, others) \<Rightarrow>
               if role = ''system'' then
                 (case strField msg ''content'' of
                    Some content \<Rightarrow> Inr (content @ [nl] @ sys, others)
                  | None \<Rightarrow> Inr (sys, others))
               else Inr (sys, msg # others))
      | _ \<Rightarrow> Inl (Panic ''interface conversion: interface {} is not string''))"

definition buildRequestData ::
  "customLLMService \<Rightarrow> string \<Rightarrow> string \<Rightarrow> jobj list \<Rightarrow> error + jv" where
  "buildRequestData cfg model toolMode msgs =
     (if provider cfg = ''anthropic'' then
        (case anthropicSplit msgs of
           Inl err \<Rightarrow> Inl err
         | Inr (systemPrompt, anthropicMessages) \<Rightarrow>
             Inr (JObj [(''model'', JStr model),
                        (''messages'', if anthropicMessages = [] then JNull
                                       else JArr (map JObj anthropicMessages)),
                        (''max_tokens'', JInt 4096),
                        (''system'', JStr (trimSpace systemPrompt))]))
      else
        Inr (JObj ([(''model'', JStr model),
                    (''messages'', JArr (map JObj msgs)),
                    (''temperature'', JInt 1),
                    (''top_p'', JDec ''0.95''),
                    (''max_tokens'', JInt 2048)]
                   @ (if toolMode = ''native''
                      then [(''tools'', JArr OpenAITools), (''tool_choice'', JStr ''auto'')]
                      else []))))"

definition rawDebugInfoOf :: "string \<Rightarrow> string \<Rightarrow> string \<Rightarrow> string" where
  "rawDebugInfoOf hdrs req body =
     [nl, nl] @ ''<debug_info>'' @ [nl] @ ''<headers>'' @ [nl] @ hdrs @ [nl] @ ''</headers>'' @ [nl]
     @ ''<request>'' @ [nl] @ req @ [nl] @ ''</request>'' @ [nl]
     @ ''<response>'' @ [nl] @ body @ [nl] @ ''</response>'' @ [nl] @ ''</debug_info>''"

definition responseTextOf :: "customLLMService \<Rightarrow> jobj \<Rightarrow> string" where
  "responseTextOf cfg response =
     (if provider cfg = ''anthropic'' then
        (case arrField response ''content'' of
           Some (JObj firstBlock # rest) \<Rightarrow> strOr firstBlock ''text''
         | _ \<Rightarrow> [])
      else
        (case arrField response ''choices'' of
           Some (JObj choice # rest) \<Rightarrow>
             (case objField choice ''message'' of
                Some message \<Rightarrow> strOr message ''content''
              | None \<Rightarrow> [])
         | _ \<Rightarrow> []))"

definition nativeCallsOf ::
  "env \<Rightarrow> customLLMService \<Rightarrow> string \<Rightarrow> jobj \<Rightarrow> error + (toolCall list \<times> jobj list)" where
  "nativeCallsOf e cfg toolMode response =
     (if provider cfg = ''anthropic'' \<or> toolMode \<noteq> ''native'' then Inr ([], [])
      else
        (case arrField response ''choices'' of
           Some (JObj choice # rest) \<Rightarrow>
             (case objField choice ''message'' of
                Some message \<Rightarrow> parseOpenAIToolCalls e message
              | None \<Rightarrow> Inr ([], []))
         | _ \<Rightarrow> Inr ([], [])))"

fun runNativeCalls ::
  "env \<Rightarrow> string \<Rightarrow> bool \<Rightarrow> toolCall list \<Rightarrow> world \<Rightarrow> toolResult list \<times> world" where
  "runNativeCalls e sessionID planMode [] w = ([], w)"
| "runNativeCalls e sessionID planMode (call # calls) w =
     (let (res, w1) = executeToolCall e sessionID call planMode w;
          (results, w2) = runNativeCalls e sessionID planMode calls w1
      in (res # results, w2))"

definition toolMessage :: "toolResult \<Rightarrow> jobj" where
  "toolMessage res =
     [(''role'', JStr ''tool''), (''tool_call_id'', JStr (trToolCallID res)),
      (''content'', JStr (trContent res))]"

definition xmlStepText :: "toolCall \<Rightarrow> toolResult \<Rightarrow> string" where
  "xmlStepText call res =
     ''STEP: execute_tool'' @ [nl] @ ''name: '' @ tcName call @ [nl]
     @ ''args: '' @ marshalIndent (JObj (tcArgs call)) @ [nl]
     @ ''result:'' @ [nl] @ trContent res"

fun runXMLCalls ::
  "env \<Rightarrow> string \<Rightarrow> bool \<Rightarrow> toolCall list \<Rightarrow> world \<Rightarrow> string list \<times> world" where
  "runXMLCalls e sessionID planMode [] w = ([], w)"
| "runXMLCalls e sessionID planMode (call # calls) w =
     (let (res, w1) = executeToolCall e sessionID call planMode w;
          (results, w2) = runXMLCalls e sessionID planMode calls w1
      in (xmlStepText call res # results, w2))"

definition afterResponse ::
  "env \<Rightarrow> string \<Rightarrow> customLLMService \<Rightarrow> bool \<Rightarrow> string \<Rightarrow> string \<Rightarrow> jobj
     \<Rightarrow> jobj list \<Rightarrow> loopState \<Rightarrow> world \<Rightarrow> turnOutcome \<times> world" where
  "afterResponse e sessionID cfg planMode toolMode rawDebugInfo response turns st w =
     (let responseText = responseTextOf cfg response in
      case nativeCallsOf e cfg toolMode response of
        Inl err \<Rightarrow> (Return [] turns (Some err), w)
      | Inr (nativeToolCalls, nativeToolCallsRaw) \<Rightarrow>
          if responseText = [] \<and> nativeToolCalls = [] then
            (Return [] turns
               (Some (Failure (''empty response from service (provider: '' @ provider cfg @ '')''
                               @ rawDebugInfo))), w)
          else
            (let b1 = responseBuilder st
                      @ (if responseBuilder st \<noteq> [] then [nl, nl] else [])
                      @ responseText
             in if nativeToolCalls \<noteq> [] then
                  (let b2 = b1 @ (if responseText \<noteq> [] then [nl, nl] else [])
                            @ buildToolCallTranscriptXML nativeToolCalls;
                       assistantMsg = [(''role'', JStr ''assistant''), (''content'', JStr responseText),
                                       (''tool_calls'', JArr (map JObj nativeToolCallsRaw))];
                       (results, w1) = runNativeCalls e sessionID planMode nativeToolCalls w;
                       resultsTranscript = buildToolResultsTranscript results;
                       b3 = b2 @ (if resultsTranscript \<noteq> []
                                  then [nl, nl] @ ''<tool_results>'' @ [nl] @ resultsTranscript
                                       @ [nl] @ ''</tool_results>''
                                  else [])
                   in (Continue \<lparr>currentMessages = currentMessages st @ [assistantMsg]
                                     @ map toolMessage results,
                                   rawTurns = turns, responseBuilder = b3\<rparr>, w1))
                else
                  (case parseXMLToolCallsFromText responseText of
                     Inl err \<Rightarrow> (Return [] turns (Some err), w)
                   | Inr xmlCalls \<Rightarrow>
                       if xmlCalls = [] then (Return b1 turns None, w)
                       else
                         (let (toolResults, w1) = runXMLCalls e sessionID planMode xmlCalls w;
                              joined = join ([nl] @ ''---'' @ [nl]) toolResults;
                              resultsText = ''Tool Results:'' @ [nl] @ joined
                          in (Continue
                                \<lparr>currentMessages = currentMessages st
                                   @ [[(''role'', JStr ''assistant''), (''content'', JStr responseText)],
                                      [(''role'', JStr ''user''),
                                       (''content'', JStr (resultsText @ [nl, nl] @ ''Please continue.''))]],
                                 rawTurns = turns,
                                 responseBuilder = b1 @ [nl, nl] @ ''<tool_results>'' @ [nl] @ joined
                                                   @ [nl] @ ''</tool_results>''\<rparr>, w1)))))"

definition turnStep ::
  "env \<Rightarrow> ctx \<Rightarrow> string \<Rightarrow> customLLMService \<Rightarrow> string \<Rightarrow> bool \<Rightarrow> loopState \<Rightarrow> world
     \<Rightarrow> turnOutcome \<times> world" where
  "turnStep e c sessionID cfg model planMode st w =
     (let toolMode = resolveToolCallingMode cfg in
      if ctxIsDone e c w then (Return [] (rawTurns st) (Some Canceled), w)
      else
        (case buildRequestData cfg model toolMode (currentMessages st) of
           Inl err \<Rightarrow> (Return [] (rawTurns st) (Some err), w)
         | Inr requestData \<Rightarrow>
             (let rawRequestJSON = marshalIndent requestData;
                  w1 = w\<lparr>requests := Suc (requests w)\<rparr>
              in case httpDo e (requests w) of
                   CreateError m \<Rightarrow>
                     (Return [] (rawTurns st) (Some (Failure (''failed to create request: '' @ m))), w)
                 | TransportError m \<Rightarrow>
                     (Return [] (rawTurns st) (Some (Failure (''request failed: '' @ m))), w1)
                 | ReadError m \<Rightarrow>
                     (Return [] (rawTurns st) (Some (Failure (''failed to read response: '' @ m))), w1)
                 | Response status body parsed \<Rightarrow>
                     (let turns = rawTurns st @
                            [[(''provider'', JStr (provider cfg)),
                              (''model'', JStr model),
                              (''url'', JStr (baseURL cfg)),
                              (''method'', JStr ''POST''),
                              (''status'', JInt status),
                              (''requestHeaders'', JStr (requestHeadersJSON cfg)),
                              (''request'', JStr rawRequestJSON),
                              (''response'', JStr body)]];
                          rawDebugInfo = rawDebugInfoOf (requestHeadersJSON cfg) rawRequestJSON body
                      in if status \<ge> 400 then
                           (Return [] turns
                              (Some (Failure (''API request failed with status '' @ showInt status
                                              @ '': '' @ body @ rawDebugInfo))), w1)
                         else
                           (case parsed of
                              Inl m \<Rightarrow>
                                (Return [] turns
                                   (Some (Failure (''failed to parse response: '' @ m))), w1)
                            | Inr response \<Rightarrow>
                                afterResponse e sessionID cfg planMode toolMode rawDebugInfo
                                  response turns st w1)))))"

definition maxTurns :: nat where
  "maxTurns = 10"

fun turnLoop ::
  "env \<Rightarrow> ctx \<Rightarrow> string \<Rightarrow> customLLMService \<Rightarrow> string \<Rightarrow> bool \<Rightarrow> nat \<Rightarrow> loopState \<Rightarrow> world
     \<Rightarrow> (string \<times> jobj list \<times> error option) \<times> world" where
  "turnLoop e c sessionID cfg model planMode 0 st w =
     ((responseBuilder st, rawTurns st, None), w)"
| "turnLoop e c sessionID cfg model planMode (Suc n) st w =
     (case turnStep e c sessionID cfg model planMode st w of
        (Return text turns err, w1) \<Rightarrow> ((text, turns, err), w1)
      | (Continue st1, w1) \<Rightarrow> turnLoop e c sessionID cfg model planMode n st1 w1)"

definition callLLMService ::
  "env \<Rightarrow> ctx \<Rightarrow> string \<Rightarrow> customLLMService \<Rightarrow> jobj list \<Rightarrow> string \<Rightarrow> bool \<Rightarrow> world
     \<Rightarrow> (string \<times> jobj list \<times> error option) \<times> world" where
  "callLLMService e c sessionID cfg initialMessages model planMode w =
     turnLoop e c sessionID cfg model planMode maxTurns
       \<lparr>currentMessages = prepareMessages initialMessages (contextLimit cfg),
        rawTurns = [], responseBuilder = []\<rparr> w"

section \<open>Sending a message through a service (sendLLMMessageInternal)\<close>

definition normalizeStoredMessage :: "jobj \<Rightarrow> (string \<times> string) option" where
  "normalizeStoredMessage msg =
     (case map_of msg ''info'' of
        Some (JObj info) \<Rightarrow>
          (let role = strOr info ''role'' in
           case map_of msg ''parts'' of
             Some (JArr []) \<Rightarrow> Some (role, [])
           | Some (JArr (JObj first # rest)) \<Rightarrow> Some (role, strOr first ''text'')
           | Some (JArr (other # rest)) \<Rightarrow> Some (role, [])
           | _ \<Rightarrow> None)
      | _ \<Rightarrow> None)"

definition apiMessage :: "string \<Rightarrow> string \<Rightarrow> jobj" where
  "apiMessage role content = [(''role'', JStr role), (''content'', JStr content)]"

definition historyMessages :: "jobj list \<Rightarrow> jobj list" where
  "historyMessages msgs =
     concat (map (\<lambda>msg. case normalizeStoredMessage msg of
                           None \<Rightarrow> []
                         | Some (role, content) \<Rightarrow>
                             if trimSpace role = [] then [] else [apiMessage role content]) msgs)"

definition systemPromptFor :: "env \<Rightarrow> string \<Rightarrow> bool \<Rightarrow> string" where
  "systemPromptFor e toolMode planMode =
     (if toolMode = ''native'' then promptNative e else promptXML e)
     @ (if planMode then planRules e else actRules e)
     @ (case projectPrompt e of
          Some content \<Rightarrow> [nl, nl] @ ''Project Context:'' @ [nl] @ content
        | None \<Rightarrow> [])"

definition textPart :: "string \<Rightarrow> bool \<Rightarrow> jv" where
  "textPart t withCount =
     JArr [JObj ([(''type'', JStr ''text''), (''text'', JStr t)]
                 @ (if withCount then [(''tokenCount'', JInt 0)] else []))]"

definition userMessageOf :: "int \<Rightarrow> string \<Rightarrow> jobj list \<Rightarrow> jobj" where
  "userMessageOf now message turns =
     [(''info'', JObj ([(''role'', JStr ''user''), (''createdAt'', JInt now),
                        (''id'', JStr (''msg_'' @ showInt now))]
                       @ (if turns \<noteq> [] then
                            (case strField (hd turns) ''request'' of
                               Some req \<Rightarrow> [(''rawRequest'', JStr req)] | None \<Rightarrow> [])
                            @ [(''rawTurns'', JArr (map JObj turns))]
                          else []))),
      (''parts'', textPart message False)]"

definition assistantMessageOf ::
  "int \<Rightarrow> string \<Rightarrow> string \<Rightarrow> string \<Rightarrow> jobj list \<Rightarrow> jobj" where
  "assistantMessageOf now targetModel serviceID responseText turns =
     [(''info'', JObj ([(''role'', JStr ''assistant''), (''createdAt'', JInt (now + 100)),
                        (''id'', JStr (''msg_'' @ showInt (now + 100))),
                        (''model'', JStr targetModel), (''service'', JStr serviceID)]
                       @ (if turns \<noteq> [] then
                            (case strField (last turns) ''response'' of
                               Some resp \<Rightarrow> [(''rawResponse'', JStr resp)] | None \<Rightarrow> [])
                            @ [(''rawTurns'', JArr (map JObj turns))]
                          else []))),
      (''parts'', textPart responseText True)]"

definition appendPair :: "string \<Rightarrow> jobj \<Rightarrow> jobj \<Rightarrow> int \<Rightarrow> world \<Rightarrow> world" where
  "appendPair sessionID userMsg assistantMsg stamp w =
     (case sessions w sessionID of
        None \<Rightarrow> w
      | Some s \<Rightarrow>
          w\<lparr>sessions := (sessions w)(sessionID \<mapsto>
               s\<lparr>messages := messages s @ [userMsg, assistantMsg], updatedAt := stamp\<rparr>)\<rparr>)"

definition sendLLMMessageInternal ::
  "env \<Rightarrow> ctx \<Rightarrow> string \<Rightarrow> string \<Rightarrow> customLLMService \<Rightarrow> string \<Rightarrow> world
     \<Rightarrow> (error + jobj) \<times> world" where
  "sendLLMMessageInternal e c sessionID message serviceConfig modelID w =
     (let targetModel = (if modelID = [] then defaultModel serviceConfig else modelID) in
      case GetSession w sessionID of
        Inl err \<Rightarrow> (Inl err, w)
      | Inr sess \<Rightarrow>
          (let planMode = planModeOf message;
               toolMode = resolveToolCallingMode serviceConfig;
               msgs = apiMessage ''system'' (systemPromptFor e toolMode planMode)
                      # historyMessages (messages sess) @ [apiMessage ''user'' message]
           in case callLLMService e c sessionID serviceConfig msgs targetModel planMode w of
                ((responseText, turns, Some err), w1) \<Rightarrow> (Inl err, w1)
              | ((responseText, turns, None), w1) \<Rightarrow>
                  (let (t, w2) = timeNow e w1;
                       now = unixMilli t;
                       userMsg = userMessageOf now message turns;
                       assistantMsg = assistantMessageOf now targetModel (svcID serviceConfig)
                                        responseText turns
                   in (Inr assistantMsg, appendPair sessionID userMsg assistantMsg (now + 100) w2))))"

section \<open>Configured services\<close>

definition decodeString :: "jobj \<Rightarrow> string \<Rightarrow> string \<times> bool" where
  "decodeString m k =
     (case map_of m k of
        None \<Rightarrow> ([], True) | Some JNull \<Rightarrow> ([], True)
      | Some (JStr s) \<Rightarrow> (s, True) | Some _ \<Rightarrow> ([], False))"

definition decodeBool :: "jobj \<Rightarrow> string \<Rightarrow> bool \<times> bool" where
  "decodeBool m k =
     (case map_of m k of
        None \<Rightarrow> (False, True) | Some JNull \<Rightarrow> (False, True)
      | Some (JBool b) \<Rightarrow> (b, True) | Some _ \<Rightarrow> (False, False))"

definition decodeInt :: "jobj \<Rightarrow> string \<Rightarrow> int \<times> bool" where
  "decodeInt m k =
     (case map_of m k of
        None \<Rightarrow> (0, True) | Some JNull \<Rightarrow> (0, True)
      | Some (JInt i) \<Rightarrow> (i, True) | Some _ \<Rightarrow> (0, False))"

definition decodeElem :: "jv \<Rightarrow> string \<times> bool" where
  "decodeElem v = (case v of JStr s \<Rightarrow> (s, True) | JNull \<Rightarrow> ([], True) | _ \<Rightarrow> ([], False))"

definition decodeStrings :: "jobj \<Rightarrow> string \<Rightarrow> string list \<times> bool" where
  "decodeStrings m k =
     (case map_of m k of
        None \<Rightarrow> ([], True) | Some JNull \<Rightarrow> ([], True)
      | Some (JArr xs) \<Rightarrow> (map (fst \<circ> decodeElem) xs, list_all (snd \<circ> decodeElem) xs)
      | Some _ \<Rightarrow> ([], False))"

definition decodeStringMap :: "jobj \<Rightarrow> string \<Rightarrow> (string \<times> string) list \<times> bool" where
  "decodeStringMap m k =
     (case map_of m k of
        None \<Rightarrow> ([], True) | Some JNull \<Rightarrow> ([], True)
      | Some (JObj kvs) \<Rightarrow>
          (map (\<lambda>kv. (fst kv, fst (decodeElem (snd kv)))) (sortedEntries kvs),
           list_all (\<lambda>kv. snd (decodeElem (snd kv))) kvs)
      | Some _ \<Rightarrow> ([], False))"

definition decodeService :: "jobj \<Rightarrow> customLLMService \<times> bool" where
  "decodeService m =
     (\<lparr>svcID = fst (decodeString m ''id''),
       svcName = fst (decodeString m ''name''),
       baseURL = fst (decodeString m ''baseUrl''),
       apiKey = fst (decodeString m ''apiKey''),
       headers = fst (decodeStringMap m ''headers''),
       models = fst (decodeStrings m ''models''),
       defaultModel = fst (decodeString m ''defaultModel''),
       authType = fst (decodeString m ''authType''),
       provider = fst (decodeString m ''provider''),
       enabled = fst (decodeBool m ''enabled''),
       contextLimit = fst (decodeInt m ''contextLimit''),
       toolCalling = fst (decodeString m ''toolCalling'')\<rparr>,
      snd (decodeString m ''id'') \<and> snd (decodeString m ''name'')
      \<and> snd (decodeString m ''baseUrl'') \<and> snd (decodeString m ''apiKey'')
      \<and> snd (decodeStringMap m ''headers'') \<and> snd (decodeStrings m ''models'')
      \<and> snd (decodeString m ''defaultModel'') \<and> snd (decodeString m ''authType'')
      \<and> snd (decodeString m ''provider'') \<and> snd (decodeBool m ''enabled'')
      \<and> snd (decodeInt m ''contextLimit'') \<and> snd (decodeString m ''toolCalling''))"

definition emptyService :: customLLMService where
  "emptyService =
     \<lparr>svcID = [], svcName = [], baseURL = [], apiKey = [], headers = [], models = [],
      defaultModel = [], authType = [], provider = [], enabled = False, contextLimit = 0,
      toolCalling = []\<rparr>"

fun findServiceByID :: "string \<Rightarrow> jv list \<Rightarrow> jobj option" where
  "findServiceByID serviceID [] = None"
| "findServiceByID serviceID (svc # rest) =
     (case svc of
        JObj svcMap \<Rightarrow>
          if map_of svcMap ''id'' = Some (JStr serviceID) then Some svcMap
          else findServiceByID serviceID rest
      | _ \<Rightarrow> findServiceByID serviceID rest)"

definition getCustomLLMServiceConfig :: "world \<Rightarrow> string \<Rightarrow> error + customLLMService" where
  "getCustomLLMServiceConfig w serviceID =
     (case map_of (config w) ''customServices'' of
        Some (JArr customServices) \<Rightarrow>
          (case findServiceByID serviceID customServices of
             None \<Rightarrow> Inl (Failure (''custom service not found: '' @ serviceID))
           | Some svcMap \<Rightarrow>
               (case decodeService svcMap of
                  (serviceConfig, ok) \<Rightarrow>
                    if \<not> ok then Inl (Failure ''failed to parse custom service'')
                    else if svcID serviceConfig = [] then
                      Inl (Failure (''custom service not found: '' @ serviceID))
                    else Inr serviceConfig))
      | _ \<Rightarrow> Inl (Failure ''custom services not configured''))"

definition SendCustomLLMMessageWithModel ::
  "env \<Rightarrow> ctx \<Rightarrow> string \<Rightarrow> string \<Rightarrow> string \<Rightarrow> string \<Rightarrow> world \<Rightarrow> (error + jobj) \<times> world" where
  "SendCustomLLMMessageWithModel e c sessionID message serviceID modelID w =
     (case getCustomLLMServiceConfig w serviceID of
        Inl err \<Rightarrow> (Inl err, w)
      | Inr serviceConfig \<Rightarrow> sendLLMMessageInternal e c sessionID message serviceConfig modelID w)"

section \<open>Provider resolution (SendMessage)\<close>

definition splitAt :: "string \<Rightarrow> string \<Rightarrow> (string \<times> string) option" where
  "splitAt s sep =
     (case index s sep of
        None \<Rightarrow> None
      | Some k \<Rightarrow> Some (take k s, drop (k + length sep) s))"

definition splitProviderModel :: "string \<Rightarrow> string \<times> string" where
  "splitProviderModel model =
     (case (case splitAt model ''::'' of
              Some (a, b) \<Rightarrow> if trimSpace a \<noteq> [] \<and> trimSpace b \<noteq> [] then Some (a, b) else None
            | None \<Rightarrow> None) of
        Some r \<Rightarrow> r
      | None \<Rightarrow>
          (case splitAt model '':'' of
             Some (a, b) \<Rightarrow> if trimSpace a \<noteq> [] \<and> trimSpace b \<noteq> [] then (a, b) else ([], model)
           | None \<Rightarrow> ([], model)))"

fun scanCustomServices :: "string \<Rightarrow> string \<Rightarrow> jv list \<Rightarrow> string option" where
  "scanCustomServices providerID model [] = None"
| "scanCustomServices providerID model (svc # rest) =
     (case svc of
        JObj svcMap \<Rightarrow>
          if map_of svcMap ''enabled'' = Some (JBool False)
          then scanCustomServices providerID model rest
          else
            (let serviceID = strOr svcMap ''id'' in
             if providerID \<noteq> [] \<and> serviceID \<noteq> providerID
             then scanCustomServices providerID model rest
             else if (case arrField svcMap ''models'' of
                        Some modelsList \<Rightarrow> JStr model \<in> set modelsList | None \<Rightarrow> False)
             then Some serviceID
             else if providerID \<noteq> [] \<and> strField svcMap ''defaultModel'' = Some model
             then Some serviceID
             else scanCustomServices providerID model rest)
      | _ \<Rightarrow> scanCustomServices providerID model rest)"

definition legacyService :: "string \<Rightarrow> jobj \<Rightarrow> customLLMService" where
  "legacyService ident pData =
     emptyService
       \<lparr>svcID := ident,
        svcName := (if strOr pData ''name'' = [] then ident else strOr pData ''name''),
        baseURL := (if strOr pData ''base_url'' = [] then
                      (if contains (toLower ident) ''openai''
                       then ''https://api.openai.com/v1/chat/completions''
                       else if contains (toLower ident) ''anthropic''
                       then ''https://api.anthropic.com/v1/messages''
                       else [])
                    else strOr pData ''base_url''),
        apiKey := strOr pData ''api_key'',
        defaultModel := strOr pData ''model'',
        authType := ''bearer'',
        enabled := True\<rparr>"

fun scanProviders :: "string \<Rightarrow> jobj \<Rightarrow> customLLMService option" where
  "scanProviders model [] = None"
| "scanProviders model ((ident, pConfig) # rest) =
     (case pConfig of
        JObj pData \<Rightarrow>
          if strOr pData ''model'' = model then Some (legacyService ident pData)
          else scanProviders model rest
      | _ \<Rightarrow> scanProviders model rest)"

definition resolveLegacy :: "jobj \<Rightarrow> string \<Rightarrow> string \<Rightarrow> customLLMService option" where
  "resolveLegacy cfg providerID model =
     (case map_of cfg ''providers'' of
        Some (JObj providersMap) \<Rightarrow>
          if providerID \<noteq> [] then
            (case map_of providersMap providerID of
               Some (JObj pData) \<Rightarrow>
                 if strOr pData ''model'' = model then Some (legacyService providerID pData)
                 else None
             | _ \<Rightarrow> None)
          else scanProviders model (dedupKeys providersMap)
      | _ \<Rightarrow> None)"

datatype route = ToCustomService string string | ToLegacyProvider customLLMService string | ToMock string

definition resolveRoute :: "jobj \<Rightarrow> string \<Rightarrow> route" where
  "resolveRoute cfg model0 =
     (let (providerID, modelID) = splitProviderModel model0;
          model = (if modelID \<noteq> [] \<and> modelID \<noteq> model0 then modelID else model0)
      in case (case map_of cfg ''customServices'' of
                 Some (JArr customServices) \<Rightarrow> scanCustomServices providerID model customServices
               | _ \<Rightarrow> None) of
           Some serviceID \<Rightarrow> ToCustomService serviceID model
         | None \<Rightarrow>
             (case resolveLegacy cfg providerID model of
                Some customService \<Rightarrow> ToLegacyProvider customService model
              | None \<Rightarrow> ToMock model))"

definition mockResponseText :: "string \<Rightarrow> string" where
  "mockResponseText message =
     ''I received your message: '' @ message @ [nl, nl]
     @ ''This is a mock response from the default provider. To use a real AI, please configure a custom provider in Settings.''"

definition sendMock :: "env \<Rightarrow> string \<Rightarrow> string \<Rightarrow> string \<Rightarrow> world \<Rightarrow> (error + jobj) \<times> world" where
  "sendMock e sessionID message model w =
     (case sessions w sessionID of
        None \<Rightarrow> (Inl (Failure (''session not found: '' @ sessionID)), w)
      | Some sess \<Rightarrow>
          (let (t, w1) = timeNow e w;
               now = unixMilli t;
               rawRequestJSON = marshalIndent
                 (JObj [(''provider'', JStr ''openspace''), (''model'', JStr model),
                        (''messages'', JArr [JObj (apiMessage ''user'' message)])]);
               responseText = mockResponseText message;
               model1 = (if model = [] then ''mock-model'' else model);
               rawResponseJSON = marshalIndent
                 (JObj [(''provider'', JStr ''openspace''), (''model'', JStr model1),
                        (''content'', JStr responseText)]);
               turns = [[(''provider'', JStr ''openspace''), (''model'', JStr model1),
                         (''status'', JStr ''mock''), (''request'', JStr rawRequestJSON),
                         (''response'', JStr rawResponseJSON), (''exitCode'', JInt 0),
                         (''timestamp'', JInt now)]];
               userMsg = [(''info'', JObj [(''role'', JStr ''user''), (''createdAt'', JInt now),
                                          (''id'', JStr (''msg_'' @ showInt now)),
                                          (''rawRequest'', JStr rawRequestJSON),
                                          (''rawTurns'', JArr (map JObj turns))]),
                          (''parts'', textPart message False)];
               assistantMsg = [(''info'', JObj [(''role'', JStr ''assistant''),
                                               (''createdAt'', JInt (now + 100)),
                                               (''id'', JStr (''msg_'' @ showInt (now + 100))),
                                               (''model'', JStr model1),
                                               (''rawResponse'', JStr rawResponseJSON),
                                               (''rawTurns'', JArr (map JObj turns))]),
                               (''parts'', textPart responseText True)]
           in (Inr assistantMsg, appendPair sessionID userMsg assistantMsg (now + 100) w1)))"

definition dispatchMessage ::
  "env \<Rightarrow> ctx \<Rightarrow> string \<Rightarrow> string \<Rightarrow> string \<Rightarrow> world \<Rightarrow> (error + jobj) \<times> world" where
  "dispatchMessage e c sessionID message model w =
     (case resolveRoute (config w) model of
        ToCustomService serviceID m \<Rightarrow>
          SendCustomLLMMessageWithModel e c sessionID message serviceID m w
      | ToLegacyProvider customService m \<Rightarrow>
          sendLLMMessageInternal e c sessionID message customService m w
      | ToMock m \<Rightarrow> sendMock e sessionID message m w)"

section \<open>Cancel registry\<close>

definition cancelBegin :: "string \<Rightarrow> world \<Rightarrow> nat \<times> world" where
  "cancelBegin sessionID w =
     (nextHandle w,
      w\<lparr>cancelled := (case cancelFuncs w sessionID of
                         Some prevCancel \<Rightarrow> insert prevCancel (cancelled w)
                       | None \<Rightarrow> cancelled w),
        cancelFuncs := (cancelFuncs w)(sessionID \<mapsto> nextHandle w),
        nextHandle := Suc (nextHandle w)\<rparr>)"

definition cancelEnd :: "string \<Rightarrow> world \<Rightarrow> world" where
  "cancelEnd sessionID w =
     (case cancelFuncs w sessionID of
        Some currentCancel \<Rightarrow>
          w\<lparr>cancelFuncs := (cancelFuncs w)(sessionID := None),
            cancelled := insert currentCancel (cancelled w)\<rparr>
      | None \<Rightarrow> w)"

definition CancelSession :: "string \<Rightarrow> world \<Rightarrow> world" where
  "CancelSession sessionID w =
     (case cancelFuncs w sessionID of
        Some cancel \<Rightarrow>
          w\<lparr>cancelled := insert cancel (cancelled w),
            cancelFuncs := (cancelFuncs w)(sessionID := None)\<rparr>
      | None \<Rightarrow> w)"

definition SendMessage ::
  "env \<Rightarrow> string \<Rightarrow> string \<Rightarrow> string \<Rightarrow> string \<Rightarrow> world \<Rightarrow> (error + jobj) \<times> world" where
  "SendMessage e sessionID message model agent w =
     (let (h, w0) = cancelBegin sessionID w;
          (r, w1) = dispatchMessage e (WithCancel h) sessionID message model w0
      in (r, cancelEnd sessionID w1))"

section \<open>Sessions (CreateSession, SummarizeSession)\<close>

definition CreateSession :: "env \<Rightarrow> string \<Rightarrow> string \<Rightarrow> world \<Rightarrow> session \<times> world" where
  "CreateSession e title0 parent w =
     (let (t, w1) = timeNow e w;
          now = unixMilli t;
          sessionID = ''session_'' @ showInt now;
          sess = \<lparr>sessID = sessionID,
                  title = (if title0 = [] then ''New Session'' else title0),
                  summary = [], createdAt = now, updatedAt = now, messages = [],
                  parentID = parent, todos = []\<rparr>
      in (sess, w1\<lparr>sessions := (sessions w1)(sessionID \<mapsto> sess)\<rparr>))"

fun findByProviderID :: "string \<Rightarrow> jv list \<Rightarrow> jobj option" where
  "findByProviderID providerID [] = None"
| "findByProviderID providerID (svc # rest) =
     (case svc of
        JObj svcMap \<Rightarrow>
          if strOr svcMap ''id'' = providerID then Some svcMap
          else findByProviderID providerID rest
      | _ \<Rightarrow> findByProviderID providerID rest)"

fun firstEnabled :: "jv list \<Rightarrow> jobj option" where
  "firstEnabled [] = None"
| "firstEnabled (svc # rest) =
     (case svc of
        JObj svcMap \<Rightarrow>
          if map_of svcMap ''enabled'' = Some (JBool False) then firstEnabled rest
          else Some svcMap
      | _ \<Rightarrow> firstEnabled rest)"

definition selectSummaryService :: "jv list \<Rightarrow> string \<Rightarrow> jobj option" where
  "selectSummaryService customServices providerID =
     (case (if providerID \<noteq> [] then findByProviderID providerID customServices else None) of
        Some svcMap \<Rightarrow> Some svcMap
      | None \<Rightarrow> firstEnabled customServices)"

definition summaryRequest :: string where
  "summaryRequest = ''Please provide a concise summary of the above conversation. Focus on the main topics discussed and any decisions made.''"

definition lastN :: "nat \<Rightarrow> 'a list \<Rightarrow> 'a list" where
  "lastN n xs = (if length xs > n then drop (length xs - n) xs else xs)"

definition summaryMessages :: "session \<Rightarrow> jobj list" where
  "summaryMessages sess =
     historyMessages (lastN 50 (messages sess)) @ [apiMessage ''user'' summaryRequest]"

definition summaryResult :: "string \<Rightarrow> nat \<Rightarrow> string \<Rightarrow> string \<Rightarrow> jobj" where
  "summaryResult text n prov model =
     [(''summary'', JStr text), (''messageCount'', JInt (int n)),
      (''provider'', JStr prov), (''model'', JStr model)]"

definition simpleSummary :: "session \<Rightarrow> string \<Rightarrow> string \<Rightarrow> jobj" where
  "simpleSummary sess providerID modelID =
     summaryResult
       (''Session '' @ [CHR 0x27] @ title sess @ [CHR 0x27] @ '' contains ''
        @ showNat (length (messages sess)) @ '' messages. (LLM summary unavailable)'')
       (length (messages sess)) providerID modelID"

definition storeSummary :: "string \<Rightarrow> string \<Rightarrow> world \<Rightarrow> world" where
  "storeSummary sessionID text w =
     (case sessions w sessionID of
        None \<Rightarrow> w
      | Some s \<Rightarrow> w\<lparr>sessions := (sessions w)(sessionID \<mapsto> s\<lparr>summary := text\<rparr>)\<rparr>)"

definition SummarizeSession ::
  "env \<Rightarrow> string \<Rightarrow> string \<Rightarrow> string \<Rightarrow> world \<Rightarrow> (error + jobj) \<times> world" where
  "SummarizeSession e sessionID providerID modelID w =
     (case GetSession w sessionID of
        Inl err \<Rightarrow> (Inl err, w)
      | Inr sess \<Rightarrow>
          (case (case map_of (config w) ''customServices'' of
                   Some (JArr customServices) \<Rightarrow> selectSummaryService customServices providerID
                 | _ \<Rightarrow> None) of
             None \<Rightarrow> (Inr (simpleSummary sess providerID modelID), w)
           | Some svcMap \<Rightarrow>
               (let serviceConfig = fst (decodeService svcMap);
                    model = (if modelID = [] then defaultModel serviceConfig else modelID)
                in case callLLMService e Background sessionID serviceConfig
                          (summaryMessages sess) model True w of
                     ((text, turns, None), w1) \<Rightarrow>
                       (Inr (summaryResult text
                               (case sessions w1 sessionID of
                                  Some s \<Rightarrow> length (messages s) | None \<Rightarrow> length (messages sess))
                               (svcID serviceConfig) model),
                        storeSummary sessionID text w1)
                   | ((text, turns, Some err), w1) \<Rightarrow>
                       (Inr (case sessions w1 sessionID of
                               Some s \<Rightarrow> simpleSummary s providerID modelID
                             | None \<Rightarrow> simpleSummary sess providerID modelID), w1))))"

section \<open>Context preparation: repeated truncation\<close>

definition emptyMsg :: jobj where
  "emptyMsg = [(''role'', JStr ''user''), (''content'', JStr [])]"

definition shortMsg :: jobj where
  "shortMsg = [(''role'', JStr ''user''), (''content'', JStr ''aaaa'')]"

definition longMsg :: jobj where
  "longMsg = [(''role'', JStr ''assistant''), (''content'', JStr (replicate 404 (CHR ''a'')))]"

lemma prepareMessages_fits:
  "countTokens xs \<le> effectiveLimit l \<Longrightarrow> prepareMessages xs l = xs"
  by (simp add: prepareMessages_def Let_def)

lemma prepareMessages_short:
  "length xs \<le> 3 \<Longrightarrow> prepareMessages xs l = xs"
  by (simp add: prepareMessages_def Let_def)

text \<open>
  Claim C6, as stated: for every message list and every budget, preparing the output of
  \<open>prepareMessages\<close> again with the same budget gives the same list. This fails: with six
  messages and a budget of 2 tokens the first run drops two middle messages and
  inserts the notice "2 messages ... removed"; the notice itself counts 36 tokens
  that were never charged against the budget, so the second run drops the notice and
  inserts "1 messages ... removed".
\<close>

theorem prepareMessages_not_idempotent:
  "prepareMessages
     (prepareMessages [emptyMsg, emptyMsg, emptyMsg, shortMsg, shortMsg, shortMsg] 2) 2
   \<noteq> prepareMessages [emptyMsg, emptyMsg, emptyMsg, shortMsg, shortMsg, shortMsg] 2"
  by code_simp

lemma prepareMessages_first_run:
  "prepareMessages [emptyMsg, emptyMsg, emptyMsg, shortMsg, shortMsg, shortMsg] 2
   = [emptyMsg, emptyMsg, truncationNotice 2, shortMsg, shortMsg]"
  by code_simp

lemma prepareMessages_second_run:
  "prepareMessages [emptyMsg, emptyMsg, truncationNotice 2, shortMsg, shortMsg] 2
   = [emptyMsg, emptyMsg, truncationNotice 1, shortMsg, shortMsg]"
  by code_simp

text \<open>
  Claim C6, amended: a second run with the same budget returns the output of the first
  run unchanged whenever that output is within the budget, or has at most three
  messages, or the first run returned its input as it was.
\<close>

theorem prepareMessages_idempotent_when_fitting:
  assumes "countTokens (prepareMessages ms l) \<le> effectiveLimit l
           \<or> length (prepareMessages ms l) \<le> 3
           \<or> prepareMessages ms l = ms"
  shows "prepareMessages (prepareMessages ms l) l = prepareMessages ms l"
  using assms prepareMessages_fits prepareMessages_short by auto

theorem prepareMessages_idempotent_when_fitting_witness:
  "countTokens (prepareMessages [emptyMsg, emptyMsg, longMsg, shortMsg, shortMsg] 100)
     \<le> effectiveLimit 100
   \<and> prepareMessages [emptyMsg, emptyMsg, longMsg, shortMsg, shortMsg] 100
       = [emptyMsg, emptyMsg, truncationNotice 1, shortMsg, shortMsg]
   \<and> prepareMessages (prepareMessages [emptyMsg, emptyMsg, longMsg, shortMsg, shortMsg] 100) 100
       = prepareMessages [emptyMsg, emptyMsg, longMsg, shortMsg, shortMsg] 100"
proof -
  have n: "prepareMessages [emptyMsg, emptyMsg, longMsg, shortMsg, shortMsg] 100
             = [emptyMsg, emptyMsg, truncationNotice 1, shortMsg, shortMsg]"
    by code_simp
  have h: "countTokens (prepareMessages [emptyMsg, emptyMsg, longMsg, shortMsg, shortMsg] 100)
             \<le> effectiveLimit 100"
    unfolding n by code_simp
  from h n prepareMessages_idempotent_when_fitting
         [of "[emptyMsg, emptyMsg, longMsg, shortMsg, shortMsg]" 100]
  show ?thesis by blast
qed

section \<open>XML argument decoding and CDATA\<close>

text \<open>
  Claim C8 says that argument values wrapped in CDATA sections are unwrapped to their
  inner text. \<open>parseArgsFirstLevel\<close> returns the text between the opening tag and the
  first matching closing tag as it stands, CDATA markers included.
\<close>

theorem parseArgsFirstLevel_keeps_cdata:
  "parseArgsFirstLevel ''<content><![CDATA[a<b]]></content>''
   = [(''content'', ''<![CDATA[a<b]]>'')]"
  by code_simp

lemma parseArgsFirstLevel_nested_tags:
  "parseArgsFirstLevel ''<path>a.txt</path><content>hello <b>world</b></content>''
   = [(''path'', ''a.txt''), (''content'', ''hello <b>world</b>'')]"
  by code_simp

lemma transcript_roundtrip_keeps_cdata:
  "parseXMLToolCallsFromText
     (buildToolCallTranscriptXML
        [\<lparr>tcID = [], tcName = ''save_file'', tcArgs = [(''content'', JStr ''a<b'')]\<rparr>])
   = Inr [\<lparr>tcID = [], tcName = ''save_file'',
            tcArgs = [(''content'', JStr ''<![CDATA[a<b]]>'')]\<rparr>]"
  by code_simp

section \<open>Persisted request headers\<close>

definition baseService :: customLLMService where
  "baseService =
     \<lparr>svcID = ''svc'', svcName = ''svc'', baseURL = ''http://localhost/v1'', apiKey = ''sk-xyz'',
      headers = [], models = [], defaultModel = ''gpt-test'', authType = ''bearer'',
      provider = ''openai'', enabled = True, contextLimit = 0, toolCalling = []\<rparr>"




lemma sanitizeRequestHeaders_entry:
  assumes "(k, vs) \<in> set (sanitizeRequestHeaders h)"
  shows "(if toLower (trimSpace k) \<in> set sensitiveHeaderNames
          then set vs \<subseteq> {''Bearer <redacted>'', ''<redacted>''}
          else (k, vs) \<in> set h)"
proof -
  from assms obtain kv where kv: "kv \<in> set h" and m: "(k, vs) \<in> set (sanitizeEntry kv)"
    by (auto simp: sanitizeRequestHeaders_def)
  show ?thesis
  proof (cases "toLower (trimSpace (fst kv)) \<in> set sensitiveHeaderNames")
    case True
    with m have "k = fst kv" and "vs = map (redactValue (toLower (trimSpace (fst kv)))) (snd kv)"
      by (auto simp: sanitizeEntry_def Let_def split: if_splits)
    with True show ?thesis by (auto simp: redactValue_def)
  next
    case False
    with m have "(k, vs) = kv"
      by (auto simp: sanitizeEntry_def Let_def split: if_splits)
    with False kv show ?thesis by auto
  qed
qed










lemma redactValue_cases: "redactValue lk v = ''Bearer <redacted>'' \<or> redactValue lk v = ''<redacted>''"
  by (simp add: redactValue_def)














lemma blank_key_is_redacted_plainly:
  "sanitizeRequestHeaders (requestHeaders (baseService\<lparr>apiKey := '' ''\<rparr>))
   = [(''Content-Type'', [''application/json'']), (''Authorization'', [''<redacted>''])]"
  by code_simp

section \<open>Plan mode and tool dispatch\<close>

definition testEnv :: env where
  "testEnv =
     \<lparr>clockAt = (\<lambda>k. 1700000000000000000 + 1000000 * int k),
      ctxDone = (\<lambda>k. False),
      httpDo = (\<lambda>k. TransportError ''connection refused''),
      unmarshalArgs = (\<lambda>a. Inl ''unexpected end of JSON input''),
      findFilesByName = (\<lambda>past q. Inr []),
      getFileContent = (\<lambda>past p. Inl ''no such file''),
      getFiles = (\<lambda>past p. Inr []),
      runCommand = (\<lambda>past c. Inr []),
      saveFileContent = (\<lambda>past p c. None),
      promptXML = ''XML-PROMPT'',
      promptNative = ''NATIVE-PROMPT'',
      planRules = ''PLAN-RULES'',
      actRules = ''ACT-RULES'',
      projectPrompt = None\<rparr>"

definition emptyWorld :: world where
  "emptyWorld =
     \<lparr>sessions = Map.empty, config = [], cancelFuncs = Map.empty, cancelled = {},
      nextHandle = 0, tick = 0, requests = 0, effects = []\<rparr>"

definition saveCall :: toolCall where
  "saveCall = \<lparr>tcID = ''c1'', tcName = ''save_file'',
               tcArgs = [(''path'', JStr ''a.txt''), (''content'', JStr ''x'')]\<rparr>"

definition statusCall :: toolCall where
  "statusCall = \<lparr>tcID = ''c2'', tcName = ''git_status'', tcArgs = []\<rparr>"

lemma registryGet_run_command: "registryGet ''run_command'' = Some RunCommandTool" by code_simp
lemma registryGet_save_file: "registryGet ''save_file'' = Some SaveFileTool" by code_simp
lemma registryGet_search_files: "registryGet ''search_files'' = Some SearchFilesTool" by code_simp
lemma registryGet_read_file: "registryGet ''read_file'' = Some ReadFileTool" by code_simp
lemma registryGet_list_files: "registryGet ''list_files'' = Some ListFilesTool" by code_simp
lemma registryGet_git_status: "registryGet ''git_status'' = Some GitStatusTool" by code_simp
lemma registryGet_git_diff: "registryGet ''git_diff'' = Some GitDiffTool" by code_simp
lemma registryGet_manage_todo: "registryGet ''manage_todo'' = Some ManageTodoTool" by code_simp

lemma executeToolCall_denied:
  assumes "registryGet (tcName call) = Some h" "\<not> AllowedInPlanMode h"
  shows "trContent (fst (executeToolCall e sid call True w)) = ''Tool not allowed in PLAN mode: '' @ tcName call
       \<and> trIsError (fst (executeToolCall e sid call True w))
       \<and> trName (fst (executeToolCall e sid call True w)) = tcName call
       \<and> effects (snd (executeToolCall e sid call True w)) = effects w
       \<and> sessions (snd (executeToolCall e sid call True w)) = sessions w"
  using assms
  by (simp add: executeToolCall_def timeNow_def Let_def split: prod.splits)

lemma executeToolCall_allowed:
  assumes "registryGet (tcName call) = Some h" "AllowedInPlanMode h"
  shows "executeToolCall e sid call True w = executeToolCall e sid call False w"
  using assms
  by (simp add: executeToolCall_def)


text \<open>
  Claim C7: when the user message begins with \<open>[MODE: PLAN]\<close> the dispatcher runs in plan
  mode; a call of \<open>run_command\<close> or \<open>save_file\<close> then returns the output
  "Tool not allowed in PLAN mode: <name>" flagged as an error, and neither the log of
  file-system and shell calls nor the session store changes; a call of one of the six
  other tools is dispatched exactly as outside plan mode.
\<close>

theorem plan_mode_dispatch:
  assumes "hasPrefix message ''[MODE: PLAN]''"
  shows "planModeOf message
    \<and> (tcName call = ''run_command'' \<or> tcName call = ''save_file'' \<longrightarrow>
         trContent (fst (executeToolCall e sid call (planModeOf message) w))
           = ''Tool not allowed in PLAN mode: '' @ tcName call
         \<and> trIsError (fst (executeToolCall e sid call (planModeOf message) w))
         \<and> effects (snd (executeToolCall e sid call (planModeOf message) w)) = effects w
         \<and> sessions (snd (executeToolCall e sid call (planModeOf message) w)) = sessions w)
    \<and> (tcName call \<in> set [''search_files'', ''read_file'', ''list_files'', ''git_status'',
                            ''git_diff'', ''manage_todo''] \<longrightarrow>
         executeToolCall e sid call (planModeOf message) w = executeToolCall e sid call False w)"
proof -
  have pm: "planModeOf message" using assms by (simp add: planModeOf_def)
  have deny: "tcName call = ''run_command'' \<or> tcName call = ''save_file'' \<Longrightarrow>
      trContent (fst (executeToolCall e sid call True w))
           = ''Tool not allowed in PLAN mode: '' @ tcName call
         \<and> trIsError (fst (executeToolCall e sid call True w))
         \<and> effects (snd (executeToolCall e sid call True w)) = effects w
         \<and> sessions (snd (executeToolCall e sid call True w)) = sessions w"
  proof (erule disjE)
    assume n: "tcName call = ''run_command''"
    have "registryGet (tcName call) = Some RunCommandTool"
      unfolding n by (rule registryGet_run_command)
    from executeToolCall_denied [OF this, of e sid w] show ?thesis
      by (simp add: AllowedInPlanMode_def)
  next
    assume n: "tcName call = ''save_file''"
    have "registryGet (tcName call) = Some SaveFileTool"
      unfolding n by (rule registryGet_save_file)
    from executeToolCall_denied [OF this, of e sid w] show ?thesis
      by (simp add: AllowedInPlanMode_def)
  qed
  have allow: "tcName call \<in> set [''search_files'', ''read_file'', ''list_files'', ''git_status'',
                            ''git_diff'', ''manage_todo''] \<Longrightarrow>
         executeToolCall e sid call True w = executeToolCall e sid call False w"
  proof -
    assume "tcName call \<in> set [''search_files'', ''read_file'', ''list_files'', ''git_status'',
                            ''git_diff'', ''manage_todo'']"
    then consider "tcName call = ''search_files''" | "tcName call = ''read_file''"
      | "tcName call = ''list_files''" | "tcName call = ''git_status''"
      | "tcName call = ''git_diff''" | "tcName call = ''manage_todo''"
      by auto
    then obtain h where "registryGet (tcName call) = Some h" and "AllowedInPlanMode h"
    proof cases
      case 1 then show ?thesis
        using that [of SearchFilesTool] registryGet_search_files by (simp add: AllowedInPlanMode_def)
    next
      case 2 then show ?thesis
        using that [of ReadFileTool] registryGet_read_file by (simp add: AllowedInPlanMode_def)
    next
      case 3 then show ?thesis
        using that [of ListFilesTool] registryGet_list_files by (simp add: AllowedInPlanMode_def)
    next
      case 4 then show ?thesis
        using that [of GitStatusTool] registryGet_git_status by (simp add: AllowedInPlanMode_def)
    next
      case 5 then show ?thesis
        using that [of GitDiffTool] registryGet_git_diff by (simp add: AllowedInPlanMode_def)
    next
      case 6 then show ?thesis
        using that [of ManageTodoTool] registryGet_manage_todo by (simp add: AllowedInPlanMode_def)
    qed
    then show ?thesis by (rule executeToolCall_allowed)
  qed
  from pm deny allow show ?thesis by simp
qed

lemma save_file_runs_in_act_mode:
  "effects (snd (executeToolCall testEnv ''s1'' saveCall False emptyWorld))
   = [SaveFileContent ''a.txt'' ''x'']"
  by code_simp

lemma git_status_runs_in_plan_mode:
  "fst (executeToolCall testEnv ''s1'' statusCall True emptyWorld)
     = \<lparr>trToolCallID = ''c2'', trName = ''git_status'', trContent = ''Clean working tree'',
        trIsError = False\<rparr>
   \<and> effects (snd (executeToolCall testEnv ''s1'' statusCall True emptyWorld))
     = [RunCommand ''git status --short'']"
  by code_simp

theorem plan_mode_dispatch_witness:
  "hasPrefix ''[MODE: PLAN] please save it'' ''[MODE: PLAN]''
   \<and> fst (executeToolCall testEnv ''s1'' saveCall (planModeOf ''[MODE: PLAN] please save it'') emptyWorld)
       = \<lparr>trToolCallID = ''c1'', trName = ''save_file'',
          trContent = ''Tool not allowed in PLAN mode: save_file'', trIsError = True\<rparr>
   \<and> effects (snd (executeToolCall testEnv ''s1'' saveCall
                     (planModeOf ''[MODE: PLAN] please save it'') emptyWorld)) = []
   \<and> effects (snd (executeToolCall testEnv ''s1'' statusCall
                     (planModeOf ''[MODE: PLAN] please save it'') emptyWorld))
       = [RunCommand ''git status --short'']"
proof -
  have h: "hasPrefix ''[MODE: PLAN] please save it'' ''[MODE: PLAN]''" by code_simp
  have n1: "tcName saveCall = ''run_command'' \<or> tcName saveCall = ''save_file''"
    by (simp add: saveCall_def)
  have n2: "tcName statusCall \<in> set [''search_files'', ''read_file'', ''list_files'',
              ''git_status'', ''git_diff'', ''manage_todo'']"
    by (simp add: statusCall_def)
  have r: "fst (executeToolCall testEnv ''s1'' saveCall True emptyWorld)
       = \<lparr>trToolCallID = ''c1'', trName = ''save_file'',
          trContent = ''Tool not allowed in PLAN mode: save_file'', trIsError = True\<rparr>"
    by code_simp
  have s: "effects (snd (executeToolCall testEnv ''s1'' statusCall False emptyWorld))
       = [RunCommand ''git status --short'']"
    by code_simp
  have ew: "effects emptyWorld = []" by (simp add: emptyWorld_def)
  note t1 = plan_mode_dispatch [OF h, of saveCall testEnv "''s1''" emptyWorld]
  note t2 = plan_mode_dispatch [OF h, of statusCall testEnv "''s1''" emptyWorld]
  from t1 have "planModeOf ''[MODE: PLAN] please save it''" by (rule conjunct1)
  then have pm: "planModeOf ''[MODE: PLAN] please save it'' = True" by simp
  have c2: "fst (executeToolCall testEnv ''s1'' saveCall
                   (planModeOf ''[MODE: PLAN] please save it'') emptyWorld)
       = \<lparr>trToolCallID = ''c1'', trName = ''save_file'',
          trContent = ''Tool not allowed in PLAN mode: save_file'', trIsError = True\<rparr>"
    unfolding pm by (rule r)
  from t1 n1 have "effects (snd (executeToolCall testEnv ''s1'' saveCall
                     (planModeOf ''[MODE: PLAN] please save it'') emptyWorld)) = effects emptyWorld"
    by blast
  then have c3: "effects (snd (executeToolCall testEnv ''s1'' saveCall
                     (planModeOf ''[MODE: PLAN] please save it'') emptyWorld)) = []"
    unfolding ew .
  from t2 n2 have "executeToolCall testEnv ''s1'' statusCall
                     (planModeOf ''[MODE: PLAN] please save it'') emptyWorld
                   = executeToolCall testEnv ''s1'' statusCall False emptyWorld"
    by blast
  then have c4: "effects (snd (executeToolCall testEnv ''s1'' statusCall
                     (planModeOf ''[MODE: PLAN] please save it'') emptyWorld))
       = [RunCommand ''git status --short'']"
    using s by simp
  from h c2 c3 c4 show ?thesis by blast
qed

section \<open>Session identifiers\<close>

definition digitVal :: "char \<Rightarrow> nat" where
  "digitVal c = length (takeWhile (\<lambda>d. d \<noteq> c) ''0123456789'')"

definition readNat :: "string \<Rightarrow> nat" where
  "readNat s = foldl (\<lambda>a c. 10 * a + digitVal c) 0 s"

lemma digitVal_digitChar: "d < 10 \<Longrightarrow> digitVal (digitChar d) = d"
proof -
  assume "d < 10"
  then have "d = 0 \<or> d = 1 \<or> d = 2 \<or> d = 3 \<or> d = 4 \<or> d = 5 \<or> d = 6
    \<or> d = 7 \<or> d = 8 \<or> d = 9" by arith
  then show ?thesis
    by (elim disjE) (simp_all add: digitVal_def digitChar_def)
qed

lemma readNat_snoc: "readNat (s @ [c]) = 10 * readNat s + digitVal c"
  by (simp add: readNat_def)

lemma readNat_showNat: "readNat (showNat n) = n"
proof (induction n rule: showNat.induct)
  case (1 n)
  show ?case
  proof (cases "n < 10")
    case True
    then show ?thesis
      by (subst showNat.simps) (simp add: readNat_def digitVal_digitChar)
  next
    case False
    have "n mod 10 < 10" by simp
    with False 1 show ?thesis
      by (subst showNat.simps) (simp add: readNat_snoc digitVal_digitChar)
  qed
qed

lemma showNat_inj: "showNat a = showNat b \<Longrightarrow> a = b"
  by (metis readNat_showNat)

lemma digitChar_not_minus: "d < 10 \<Longrightarrow> digitChar d \<noteq> CHR ''-''"
proof -
  assume "d < 10"
  then have "d = 0 \<or> d = 1 \<or> d = 2 \<or> d = 3 \<or> d = 4 \<or> d = 5 \<or> d = 6
    \<or> d = 7 \<or> d = 8 \<or> d = 9" by arith
  then show ?thesis
    by (elim disjE) (simp_all add: digitChar_def)
qed

lemma showNat_head: "showNat n \<noteq> [] \<and> hd (showNat n) \<noteq> CHR ''-''"
proof (induction n rule: showNat.induct)
  case (1 n)
  show ?case
  proof (cases "n < 10")
    case True
    then show ?thesis
      by (subst showNat.simps, subst (2) showNat.simps) (simp add: digitChar_not_minus)
  next
    case False
    with 1 show ?thesis
      by (subst showNat.simps, subst (2) showNat.simps) simp
  qed
qed

lemma showInt_inj: "showInt a = showInt b \<Longrightarrow> a = b"
proof -
  assume h: "showInt a = showInt b"
  show ?thesis
  proof (cases "a < 0"; cases "b < 0")
    assume "a < 0" "b < 0"
    with h have "nat (- a) = nat (- b)" by (auto simp: showInt_def dest: showNat_inj)
    with \<open>a < 0\<close> \<open>b < 0\<close> show ?thesis by simp
  next
    assume "a < 0" "\<not> b < 0"
    with h showNat_head [of "nat b"] show ?thesis
      by (cases "showNat (nat b)") (auto simp: showInt_def)
  next
    assume "\<not> a < 0" "b < 0"
    with h showNat_head [of "nat a"] show ?thesis
      by (cases "showNat (nat a)") (auto simp: showInt_def)
  next
    assume "\<not> a < 0" "\<not> b < 0"
    with h have "nat a = nat b" by (auto simp: showInt_def dest: showNat_inj)
    with \<open>\<not> a < 0\<close> \<open>\<not> b < 0\<close> show ?thesis by simp
  qed
qed

lemma CreateSession_id:
  "sessID (fst (CreateSession e t p w)) = ''session_'' @ showInt (unixMilli (clockAt e (tick w)))"
  by (simp add: CreateSession_def timeNow_def Let_def)

lemma CreateSession_store:
  "sessions (snd (CreateSession e t p w))
   = (sessions w)(sessID (fst (CreateSession e t p w)) \<mapsto> fst (CreateSession e t p w))"
  by (simp add: CreateSession_def timeNow_def Let_def)

lemma CreateSession_tick:
  "tick (snd (CreateSession e t p w)) = Suc (tick w)"
  by (simp add: CreateSession_def timeNow_def Let_def)

definition fastClockEnv :: env where
  "fastClockEnv = testEnv\<lparr>clockAt := (\<lambda>k. 1700000000000000000 + 1000 * int k)\<rparr>"

text \<open>
  Claim C9, as stated: any two calls of \<open>CreateSession\<close> return sessions with distinct
  ids, and creating a session never overwrites a stored one. This fails: the id is
  \<open>session_<ms>\<close> for the millisecond clock value read by the call and nothing checks the
  store, so two calls that read the same millisecond (here the clock advances by one
  microsecond per reading) return the same id and the second session replaces the first.
\<close>

theorem CreateSession_same_millisecond_collides:
  "sessID (fst (CreateSession fastClockEnv ''A'' [] emptyWorld))
     = sessID (fst (CreateSession fastClockEnv ''B'' []
                      (snd (CreateSession fastClockEnv ''A'' [] emptyWorld))))
   \<and> map_option title
        (sessions (snd (CreateSession fastClockEnv ''B'' []
                          (snd (CreateSession fastClockEnv ''A'' [] emptyWorld))))
           (sessID (fst (CreateSession fastClockEnv ''A'' [] emptyWorld))))
     = Some ''B''"
  by (simp add: CreateSession_def timeNow_def Let_def fastClockEnv_def testEnv_def
        emptyWorld_def unixMilli_def)

text \<open>
  Claim C9, amended: the id of a created session is \<open>session_<ms>\<close> where \<open>ms\<close> is the
  millisecond clock value read by the call; two calls return the same id exactly when
  they read the same millisecond value, so calls that read different millisecond values
  return distinct ids. Creating a session stores it under its id and leaves every session
  stored under another id untouched; a session already stored under the same id is
  replaced.
\<close>

theorem CreateSession_ids:
  "sessID (fst (CreateSession e t p w)) = ''session_'' @ showInt (unixMilli (clockAt e (tick w)))
   \<and> (sessID (fst (CreateSession e t p w)) = sessID (fst (CreateSession e' t' p' w'))
        \<longleftrightarrow> unixMilli (clockAt e (tick w)) = unixMilli (clockAt e' (tick w')))
   \<and> sessions (snd (CreateSession e t p w)) (sessID (fst (CreateSession e t p w)))
       = Some (fst (CreateSession e t p w))
   \<and> (\<forall>k. k \<noteq> sessID (fst (CreateSession e t p w)) \<longrightarrow>
          sessions (snd (CreateSession e t p w)) k = sessions w k)"
proof -
  have a: "sessID (fst (CreateSession e t p w))
             = ''session_'' @ showInt (unixMilli (clockAt e (tick w)))"
    by (rule CreateSession_id)
  have b: "sessID (fst (CreateSession e t p w)) = sessID (fst (CreateSession e' t' p' w'))
        \<longleftrightarrow> unixMilli (clockAt e (tick w)) = unixMilli (clockAt e' (tick w'))"
    unfolding CreateSession_id using showInt_inj by auto
  have c: "sessions (snd (CreateSession e t p w)) (sessID (fst (CreateSession e t p w)))
       = Some (fst (CreateSession e t p w))"
    unfolding CreateSession_store by simp
  have d: "\<forall>k. k \<noteq> sessID (fst (CreateSession e t p w)) \<longrightarrow>
          sessions (snd (CreateSession e t p w)) k = sessions w k"
    unfolding CreateSession_store by simp
  from a b c d show ?thesis by blast
qed

theorem CreateSession_ids_witness:
  "unixMilli (clockAt testEnv (tick emptyWorld))
     \<noteq> unixMilli (clockAt testEnv (tick (snd (CreateSession testEnv ''A'' [] emptyWorld))))
   \<and> sessID (fst (CreateSession testEnv ''A'' [] emptyWorld))
     \<noteq> sessID (fst (CreateSession testEnv ''B'' []
                        (snd (CreateSession testEnv ''A'' [] emptyWorld))))
   \<and> sessions (snd (CreateSession testEnv ''B'' []
                       (snd (CreateSession testEnv ''A'' [] emptyWorld))))
         (sessID (fst (CreateSession testEnv ''A'' [] emptyWorld)))
     = Some (fst (CreateSession testEnv ''A'' [] emptyWorld))"
proof -
  let ?w1 = "snd (CreateSession testEnv ''A'' [] emptyWorld)"
  let ?s1 = "fst (CreateSession testEnv ''A'' [] emptyWorld)"
  let ?s2 = "fst (CreateSession testEnv ''B'' [] ?w1)"
  have ms: "unixMilli (clockAt testEnv (tick emptyWorld))
              \<noteq> unixMilli (clockAt testEnv (tick ?w1))"
    by (simp add: CreateSession_tick testEnv_def emptyWorld_def unixMilli_def)
  note t1 = CreateSession_ids [of testEnv "''A''" "[]" emptyWorld testEnv "''B''" "[]" ?w1]
  note t2 = CreateSession_ids [of testEnv "''B''" "[]" ?w1 testEnv "''A''" "[]" emptyWorld]
  from t1 ms have ne: "sessID ?s1 \<noteq> sessID ?s2" by blast
  from t1 have st: "sessions ?w1 (sessID ?s1) = Some ?s1" by blast
  from t2 ne have "sessions (snd (CreateSession testEnv ''B'' [] ?w1)) (sessID ?s1)
                     = sessions ?w1 (sessID ?s1)"
    by metis
  with st ms ne show ?thesis by simp
qed

section \<open>Cancel handles of racing calls\<close>

definition afterFirstCleanup :: world where
  "afterFirstCleanup =
     cancelEnd ''s'' (snd (cancelBegin ''s'' (snd (cancelBegin ''s'' emptyWorld))))"

text \<open>
  Claim C1 says that the cleanup of a finished \<open>SendMessage\<close> removes the cancel handle
  of its session only if that handle is still its own, so that a handle installed by a
  later call stays registered and is not cancelled. In the code the cleanup removes and
  fires whatever handle is registered. With two calls on session \<open>s\<close>, the first
  installing handle 0 and the second handle 1 (which cancels handle 0), the cleanup of
  the first call removes handle 1 from the registry and cancels it, so the context of
  the second call is done.
\<close>

theorem cleanup_cancels_later_handle:
  "fst (cancelBegin ''s'' emptyWorld) = 0
   \<and> fst (cancelBegin ''s'' (snd (cancelBegin ''s'' emptyWorld))) = 1
   \<and> cancelFuncs (snd (cancelBegin ''s'' (snd (cancelBegin ''s'' emptyWorld)))) ''s'' = Some 1
   \<and> cancelled (snd (cancelBegin ''s'' (snd (cancelBegin ''s'' emptyWorld)))) = {0}
   \<and> cancelFuncs afterFirstCleanup ''s'' = None
   \<and> 1 \<in> cancelled afterFirstCleanup
   \<and> ctxIsDone testEnv (WithCancel 1) afterFirstCleanup"
  by (simp add: afterFirstCleanup_def cancelBegin_def cancelEnd_def emptyWorld_def ctxIsDone_def)

lemma cancelled_context_stops_turn:
  assumes "h \<in> cancelled w"
  shows "turnStep e (WithCancel h) sid cfg model pm st w
         = (Return [] (rawTurns st) (Some Canceled), w)"
  using assms by (simp add: turnStep_def ctxIsDone_def)

lemma cancelled_context_appends_nothing:
  assumes "h \<in> cancelled w"
  shows "fst (sendLLMMessageInternal e (WithCancel h) sid message cfg modelID w) = Inl Canceled
           \<or> fst (sendLLMMessageInternal e (WithCancel h) sid message cfg modelID w)
                = Inl (Failure (''session not found: '' @ sid))"
    and "sessions (snd (sendLLMMessageInternal e (WithCancel h) sid message cfg modelID w))
           = sessions w"
  using assms
  by (auto simp: sendLLMMessageInternal_def callLLMService_def maxTurns_def GetSession_def
        turnStep_def ctxIsDone_def Let_def numeral_nat split: option.splits)

section \<open>Provider resolution\<close>

text \<open>
  The matching rule of the custom-service scan in the words of the specification, with
  the default-model clause as the code has it: an entry matches when it is an object
  whose \<open>enabled\<close> field is not the boolean false, whose id equals the provider prefix
  when there is one, and whose \<open>models\<close> list contains the model id or, only when a
  provider prefix is present, whose \<open>defaultModel\<close> equals the model id.
\<close>

definition serviceIdOf :: "jv \<Rightarrow> string" where
  "serviceIdOf svc = (case svc of JObj svcMap \<Rightarrow> strOr svcMap ''id'' | _ \<Rightarrow> [])"

definition serviceMatches :: "string \<Rightarrow> string \<Rightarrow> jv \<Rightarrow> bool" where
  "serviceMatches providerID model svc =
     (case svc of
        JObj svcMap \<Rightarrow>
          map_of svcMap ''enabled'' \<noteq> Some (JBool False)
          \<and> (providerID = [] \<or> strOr svcMap ''id'' = providerID)
          \<and> ((case arrField svcMap ''models'' of
                 Some modelsList \<Rightarrow> JStr model \<in> set modelsList | None \<Rightarrow> False)
               \<or> (providerID \<noteq> [] \<and> strField svcMap ''defaultModel'' = Some model))
      | _ \<Rightarrow> False)"

definition customServicesOf :: "jobj \<Rightarrow> jv list" where
  "customServicesOf cfg = (case map_of cfg ''customServices'' of Some (JArr xs) \<Rightarrow> xs | _ \<Rightarrow> [])"

lemma scanCustomServices_object:
  "scanCustomServices providerID model (JObj svcMap # rest)
   = (if serviceMatches providerID model (JObj svcMap) then Some (strOr svcMap ''id'')
      else scanCustomServices providerID model rest)"
  by (auto simp: serviceMatches_def Let_def split: option.splits)

lemma scanCustomServices_other:
  assumes "\<forall>svcMap. svc \<noteq> JObj svcMap"
  shows "scanCustomServices providerID model (svc # rest) = scanCustomServices providerID model rest
         \<and> \<not> serviceMatches providerID model svc"
  using assms by (cases svc) (simp_all add: serviceMatches_def)

lemma serviceIdOf_object: "serviceIdOf (JObj svcMap) = strOr svcMap ''id''"
  by (simp add: serviceIdOf_def)

lemma scanCustomServices_find:
  "scanCustomServices providerID model svcs
   = map_option serviceIdOf (find (serviceMatches providerID model) svcs)"
proof (induction svcs)
  case Nil
  show ?case by simp
next
  case (Cons svc rest)
  show ?case
  proof (cases "\<exists>svcMap. svc = JObj svcMap")
    case True
    then obtain svcMap where o: "svc = JObj svcMap" by blast
    show ?thesis
      unfolding o scanCustomServices_object Cons.IH
      by (simp add: serviceIdOf_object)
  next
    case False
    then have "\<forall>svcMap. svc \<noteq> JObj svcMap" by blast
    from scanCustomServices_other [OF this, of providerID model rest] Cons.IH
    show ?thesis by simp
  qed
qed

lemma trimSpace_Nil: "trimSpace [] = []"
  by (simp add: trimSpace_def)

lemma splitProviderModel_model:
  "snd (splitProviderModel model0) = model0 \<or> snd (splitProviderModel model0) \<noteq> []"
  by (auto simp: splitProviderModel_def trimSpace_Nil split: option.splits prod.splits)

lemma resolveRoute_model:
  "(if snd (splitProviderModel model0) \<noteq> [] \<and> snd (splitProviderModel model0) \<noteq> model0
    then snd (splitProviderModel model0) else model0) = snd (splitProviderModel model0)"
  using splitProviderModel_model [of model0] by auto

lemma resolveRoute_custom_first:
  "resolveRoute cfg model0 =
     (case find (serviceMatches (fst (splitProviderModel model0)) (snd (splitProviderModel model0)))
             (customServicesOf cfg) of
        Some svc \<Rightarrow> ToCustomService (serviceIdOf svc) (snd (splitProviderModel model0))
      | None \<Rightarrow>
          (case resolveLegacy cfg (fst (splitProviderModel model0)) (snd (splitProviderModel model0)) of
             Some customService \<Rightarrow> ToLegacyProvider customService (snd (splitProviderModel model0))
           | None \<Rightarrow> ToMock (snd (splitProviderModel model0))))"
proof -
  have s: "(case map_of cfg ''customServices'' of
              Some (JArr customServices) \<Rightarrow> scanCustomServices p m customServices
            | _ \<Rightarrow> None)
           = map_option serviceIdOf (find (serviceMatches p m) (customServicesOf cfg))" for p m
    by (simp add: customServicesOf_def scanCustomServices_find split: option.splits jv.splits)
  obtain p m where pm: "splitProviderModel model0 = (p, m)" by force
  from splitProviderModel_model [of model0] have "m = model0 \<or> m \<noteq> []"
    unfolding pm by simp
  then have mm: "(if m \<noteq> [] \<and> m \<noteq> model0 then m else model0) = m" by auto
  show ?thesis
    unfolding resolveRoute_def pm Let_def prod.case mm s fst_conv snd_conv
    by (cases "find (serviceMatches p m) (customServicesOf cfg)") simp_all
qed

lemma dispatchMessage_custom:
  assumes "resolveRoute (config w) model = ToCustomService serviceID m"
  shows "dispatchMessage e c sid message model w
         = SendCustomLLMMessageWithModel e c sid message serviceID m w"
  using assms by (simp add: dispatchMessage_def)

lemma dispatchMessage_mock:
  assumes "resolveRoute (config w) model = ToMock m"
  shows "dispatchMessage e c sid message model w = sendMock e sid message m w"
  using assms by (simp add: dispatchMessage_def)

definition scenarioService :: jobj where
  "scenarioService =
     [(''id'', JStr ''svc''), (''name'', JStr ''svc''), (''provider'', JStr ''openai''),
      (''toolCalling'', JStr ''native''), (''baseUrl'', JStr ''http://localhost/v1''),
      (''defaultModel'', JStr ''gpt-test''), (''enabled'', JBool True)]"

definition scenarioConfig :: jobj where
  "scenarioConfig = [(''customServices'', JArr [JObj scenarioService])]"

text \<open>
  Claim C2, as stated: a bare model id that equals the \<open>defaultModel\<close> of an enabled
  service is routed to that service. This fails: the comparison with \<open>defaultModel\<close> is
  guarded by a non-empty provider prefix, so with the single enabled service \<open>svc\<close> whose
  default model is \<open>gpt-test\<close> and no legacy provider, the bare id \<open>gpt-test\<close> is answered
  by the mock.
\<close>

theorem bare_default_model_goes_to_mock:
  "customServicesOf scenarioConfig = [JObj scenarioService]
   \<and> map_of scenarioService ''enabled'' = Some (JBool True)
   \<and> strField scenarioService ''defaultModel'' = Some ''gpt-test''
   \<and> resolveRoute scenarioConfig ''gpt-test'' = ToMock ''gpt-test''"
  by code_simp

text \<open>
  Claim C2, amended: provider resolution splits the model identifier into an optional
  provider prefix and a model id, and scans \<open>config.customServices\<close> first, in order. An
  entry that is not an object or whose \<open>enabled\<close> field is the boolean false is skipped;
  when a provider prefix is present the entry's id must equal it; an entry matches when
  the model id is an element of its \<open>models\<close> list or, only when a provider prefix is
  present, equals its \<open>defaultModel\<close>. The first matching entry wins and the message is
  handed to the service registered under that entry's id; only when no entry matches are
  the legacy providers tried, and then the mock.
\<close>

theorem custom_services_scanned_first:
  "resolveRoute cfg model0 =
     (case find (serviceMatches (fst (splitProviderModel model0)) (snd (splitProviderModel model0)))
             (customServicesOf cfg) of
        Some svc \<Rightarrow> ToCustomService (serviceIdOf svc) (snd (splitProviderModel model0))
      | None \<Rightarrow>
          (case resolveLegacy cfg (fst (splitProviderModel model0)) (snd (splitProviderModel model0)) of
             Some customService \<Rightarrow> ToLegacyProvider customService (snd (splitProviderModel model0))
           | None \<Rightarrow> ToMock (snd (splitProviderModel model0))))"
  by (rule resolveRoute_custom_first)

theorem custom_services_scanned_first_witness:
  "splitProviderModel ''svc::gpt-test'' = (''svc'', ''gpt-test'')
   \<and> find (serviceMatches ''svc'' ''gpt-test'') (customServicesOf scenarioConfig)
       = Some (JObj scenarioService)
   \<and> resolveRoute scenarioConfig ''svc::gpt-test'' = ToCustomService ''svc'' ''gpt-test''"
proof -
  have a: "splitProviderModel ''svc::gpt-test'' = (''svc'', ''gpt-test'')" by code_simp
  have b: "find (serviceMatches ''svc'' ''gpt-test'') (customServicesOf scenarioConfig)
             = Some (JObj scenarioService)" by code_simp
  have c: "serviceIdOf (JObj scenarioService) = ''svc''" by code_simp
  from custom_services_scanned_first [of scenarioConfig "''svc::gpt-test''"]
  have "resolveRoute scenarioConfig ''svc::gpt-test'' = ToCustomService ''svc'' ''gpt-test''"
    unfolding a fst_conv snd_conv b by (simp add: c)
  with a b show ?thesis by blast
qed

section \<open>Session fields that a generation leaves alone\<close>

text \<open>
  \<open>stableView\<close> is the part of the session store that no tool can change: for every
  session id, whether a session is stored and its id, title, summary, creation time,
  message list and parent. The todo list and \<open>updatedAt\<close> are left out: the
  \<open>manage_todo\<close> tool writes both.
\<close>

definition stableView :: "world \<Rightarrow> string \<Rightarrow> (string \<times> string \<times> string \<times> int \<times> jobj list \<times> string) option" where
  "stableView w k = map_option (\<lambda>s. (sessID s, title s, summary s, createdAt s, messages s, parentID s)) (sessions w k)"

lemma stableView_timeNow: "stableView (snd (timeNow e w)) = stableView w"
  by (auto simp: timeNow_def stableView_def fun_eq_iff)

lemma stableView_logOp: "stableView (logOp op w) = stableView w"
  by (auto simp: logOp_def stableView_def fun_eq_iff)

lemma stableView_UpdateSessionTodos: "stableView (UpdateSessionTodos e sid ts w) = stableView w"
  by (auto simp: UpdateSessionTodos_def timeNow_def stableView_def fun_eq_iff split: option.splits)

lemma stableView_searchFiles: "stableView (snd (searchFilesExecute e args w)) = stableView w"
  by (auto simp: searchFilesExecute_def stableView_logOp split: sum.splits)

lemma stableView_readFile: "stableView (snd (readFileExecute e args w)) = stableView w"
  by (auto simp: readFileExecute_def stableView_logOp split: sum.splits)

lemma stableView_listFiles: "stableView (snd (listFilesExecute e args w)) = stableView w"
  by (auto simp: listFilesExecute_def stableView_logOp split: sum.splits)

lemma stableView_runCommand: "stableView (snd (runCommandExecute e args w)) = stableView w"
  by (auto simp: runCommandExecute_def stableView_logOp split: sum.splits prod.splits)

lemma stableView_saveFile: "stableView (snd (saveFileExecute e args w)) = stableView w"
  by (auto simp: saveFileExecute_def stableView_logOp split: sum.splits option.splits)

lemma stableView_gitStatus: "stableView (snd (gitStatusExecute e args w)) = stableView w"
  by (auto simp: gitStatusExecute_def stableView_logOp split: sum.splits prod.splits)

lemma stableView_gitDiff: "stableView (snd (gitDiffExecute e args w)) = stableView w"
  by (auto simp: gitDiffExecute_def stableView_logOp Let_def split: sum.splits prod.splits)


lemma stableView_tick: "stableView (w\<lparr>tick := n\<rparr>) = stableView w"
  by (auto simp: stableView_def fun_eq_iff)

lemma stableView_manageTodo: "stableView (snd (manageTodoExecute e sid args w)) = stableView w"
  by (simp add: manageTodoExecute_def Let_def timeNow_def stableView_UpdateSessionTodos
        stableView_tick split: sum.split option.split)

lemma stableView_Execute: "stableView (snd (Execute e sid h args w)) = stableView w"
  by (cases h) (simp_all add: Execute_def stableView_searchFiles stableView_readFile
      stableView_listFiles stableView_runCommand stableView_saveFile stableView_gitStatus
      stableView_gitDiff stableView_manageTodo)


lemma stableView_Execute_eq:
  "Execute e sid h args w0 = (r, w1) \<Longrightarrow> stableView w1 = stableView w0"
  using stableView_Execute [of e sid h args w0] by simp

lemma stableView_executeToolCall:
  "stableView (snd (executeToolCall e sid call pm w)) = stableView w"
  by (auto simp: executeToolCall_def timeNow_def Let_def stableView_tick
      split: option.split prod.split sum.split dest: stableView_Execute_eq)

lemma stableView_executeToolCall_eq:
  "executeToolCall e sid call pm w = (r, w1) \<Longrightarrow> stableView w1 = stableView w"
  using stableView_executeToolCall [of e sid call pm w] by simp

lemma stableView_runNativeCalls:
  "stableView (snd (runNativeCalls e sid pm calls w)) = stableView w"
proof (induction calls arbitrary: w)
  case Nil
  show ?case by simp
next
  case (Cons call calls)
  obtain res w1 where a: "executeToolCall e sid call pm w = (res, w1)" by force
  obtain results w2 where b: "runNativeCalls e sid pm calls w1 = (results, w2)" by force
  from Cons.IH [of w1] b have "stableView w2 = stableView w1" by simp
  with stableView_executeToolCall_eq [OF a] a b show ?case by simp
qed

lemma stableView_runXMLCalls:
  "stableView (snd (runXMLCalls e sid pm calls w)) = stableView w"
proof (induction calls arbitrary: w)
  case Nil
  show ?case by simp
next
  case (Cons call calls)
  obtain res w1 where a: "executeToolCall e sid call pm w = (res, w1)" by force
  obtain results w2 where b: "runXMLCalls e sid pm calls w1 = (results, w2)" by force
  from Cons.IH [of w1] b have "stableView w2 = stableView w1" by simp
  with stableView_executeToolCall_eq [OF a] a b show ?case by simp
qed

lemma stableView_runNativeCalls_eq:
  "runNativeCalls e sid pm calls w = (r, w1) \<Longrightarrow> stableView w1 = stableView w"
  using stableView_runNativeCalls [of e sid pm calls w] by simp

lemma stableView_runXMLCalls_eq:
  "runXMLCalls e sid pm calls w = (r, w1) \<Longrightarrow> stableView w1 = stableView w"
  using stableView_runXMLCalls [of e sid pm calls w] by simp

lemma stableView_afterResponse:
  "stableView (snd (afterResponse e sid cfg pm tm dbg response turns st w)) = stableView w"
  by (auto simp: afterResponse_def Let_def
      split: sum.split prod.split
      dest: stableView_runNativeCalls_eq stableView_runXMLCalls_eq)


lemma stableView_requests: "stableView (w\<lparr>requests := n\<rparr>) = stableView w"
  by (auto simp: stableView_def fun_eq_iff)

lemma stableView_turnStep:
  "stableView (snd (turnStep e c sid cfg model pm st w)) = stableView w"
  by (simp add: turnStep_def Let_def stableView_afterResponse stableView_requests
      split: sum.split httpOutcome.split)

lemma stableView_turnLoop:
  "stableView (snd (turnLoop e c sid cfg model pm n st w)) = stableView w"
proof (induction n arbitrary: st w)
  case 0
  show ?case by simp
next
  case (Suc n)
  obtain out w1 where a: "turnStep e c sid cfg model pm st w = (out, w1)" by force
  from stableView_turnStep [of e c sid cfg model pm st w] a
  have b: "stableView w1 = stableView w" by simp
  show ?case
  proof (cases out)
    case (Return rtext turns err)
    with a b show ?thesis by simp
  next
    case (Continue st1)
    with a b Suc.IH [of st1 w1] show ?thesis by simp
  qed
qed

lemma stableView_callLLMService:
  "stableView (snd (callLLMService e c sid cfg msgs model pm w)) = stableView w"
  by (simp add: callLLMService_def stableView_turnLoop)


definition infoStr :: "jobj \<Rightarrow> string \<Rightarrow> string option" where
  "infoStr msg k = (case objField msg ''info'' of Some info \<Rightarrow> strField info k | None \<Rightarrow> None)"

definition infoInt :: "jobj \<Rightarrow> string \<Rightarrow> int option" where
  "infoInt msg k =
     (case objField msg ''info'' of
        Some info \<Rightarrow> (case map_of info k of Some (JInt n) \<Rightarrow> Some n | _ \<Rightarrow> None)
      | None \<Rightarrow> None)"

lemma userMessageOf_info:
  "infoStr (userMessageOf now message turns) ''role'' = Some ''user''
   \<and> infoInt (userMessageOf now message turns) ''createdAt'' = Some now"
  by (simp add: userMessageOf_def infoStr_def infoInt_def objField_def strField_def)

lemma assistantMessageOf_info:
  "infoStr (assistantMessageOf now tm sv rt turns) ''role'' = Some ''assistant''
   \<and> infoInt (assistantMessageOf now tm sv rt turns) ''createdAt'' = Some (now + 100)"
  by (simp add: assistantMessageOf_def infoStr_def infoInt_def objField_def strField_def)

lemma stableView_messages:
  assumes "stableView w1 = stableView w" "sessions w k = Some s"
  shows "\<exists>s1. sessions w1 k = Some s1 \<and> messages s1 = messages s"
proof -
  from assms(1) have "stableView w1 k = stableView w k" by simp
  with assms(2) show ?thesis by (auto simp: stableView_def)
qed

lemma sendLLMMessageInternal_error:
  assumes "sendLLMMessageInternal e c sid message cfg modelID w = (Inl err, w')"
  shows "stableView w' = stableView w"
proof (cases "GetSession w sid")
  case (Inl a)
  with assms show ?thesis by (simp add: sendLLMMessageInternal_def Let_def)
next
  case (Inr sess)
  let ?tm = "if modelID = [] then defaultModel cfg else modelID"
  let ?msgs = "apiMessage ''system'' (systemPromptFor e (resolveToolCallingMode cfg) (planModeOf message))
                 # historyMessages (messages sess) @ [apiMessage ''user'' message]"
  obtain rt turns er w1 where
    call: "callLLMService e c sid cfg ?msgs ?tm (planModeOf message) w = ((rt, turns, er), w1)"
    by (metis prod.exhaust)
  from stableView_callLLMService [of e c sid cfg ?msgs ?tm "planModeOf message" w] call
  have sv: "stableView w1 = stableView w" by simp
  show ?thesis
  proof (cases er)
    case None
    with assms Inr call show ?thesis
      by (simp add: sendLLMMessageInternal_def Let_def timeNow_def split: prod.splits)
  next
    case (Some x)
    with assms Inr call sv show ?thesis
      by (simp add: sendLLMMessageInternal_def Let_def)
  qed
qed

lemma sendLLMMessageInternal_success:
  assumes "sendLLMMessageInternal e c sid message cfg modelID w = (Inr assistantMsg, w')"
  shows "\<exists>sess sess' userMsg now.
           sessions w sid = Some sess \<and> sessions w' sid = Some sess'
           \<and> messages sess' = messages sess @ [userMsg, assistantMsg]
           \<and> infoStr userMsg ''role'' = Some ''user''
           \<and> infoStr assistantMsg ''role'' = Some ''assistant''
           \<and> infoInt userMsg ''createdAt'' = Some now
           \<and> infoInt assistantMsg ''createdAt'' = Some (now + 100)
           \<and> updatedAt sess' = now + 100"
proof (cases "GetSession w sid")
  case (Inl a)
  with assms show ?thesis by (simp add: sendLLMMessageInternal_def Let_def)
next
  case (Inr sess)
  then have s0: "sessions w sid = Some sess"
    by (simp add: GetSession_def split: option.splits)
  let ?tm = "if modelID = [] then defaultModel cfg else modelID"
  let ?msgs = "apiMessage ''system'' (systemPromptFor e (resolveToolCallingMode cfg) (planModeOf message))
                 # historyMessages (messages sess) @ [apiMessage ''user'' message]"
  obtain rt turns er w1 where
    call: "callLLMService e c sid cfg ?msgs ?tm (planModeOf message) w = ((rt, turns, er), w1)"
    by (metis prod.exhaust)
  from stableView_callLLMService [of e c sid cfg ?msgs ?tm "planModeOf message" w] call
  have sv: "stableView w1 = stableView w" by simp
  from stableView_messages [OF sv s0] obtain s1 where
    s1: "sessions w1 sid = Some s1" "messages s1 = messages sess" by blast
  show ?thesis
  proof (cases er)
    case (Some x)
    with assms Inr call show ?thesis
      by (simp add: sendLLMMessageInternal_def Let_def)
  next
    case None
    let ?now = "unixMilli (clockAt e (tick w1))"
    let ?u = "userMessageOf ?now message turns"
    let ?a = "assistantMessageOf ?now ?tm (svcID cfg) rt turns"
    let ?w2 = "w1\<lparr>tick := Suc (tick w1)\<rparr>"
    from assms Inr call None
    have r: "assistantMsg = ?a" "w' = appendPair sid ?u ?a (?now + 100) ?w2"
      by (auto simp add: sendLLMMessageInternal_def Let_def timeNow_def)
    from s1 have "sessions ?w2 sid = Some s1" by simp
    then have "sessions w' sid = Some (s1\<lparr>messages := messages s1 @ [?u, ?a], updatedAt := ?now + 100\<rparr>)"
      unfolding r(2) by (simp add: appendPair_def)
    with s0 s1 r(1) userMessageOf_info [of ?now message turns]
         assistantMessageOf_info [of ?now ?tm "svcID cfg" rt turns]
    show ?thesis by auto
  qed
qed


section \<open>Summaries\<close>

definition hasID :: "string \<Rightarrow> jv \<Rightarrow> bool" where
  "hasID providerID svc = (case svc of JObj svcMap \<Rightarrow> strOr svcMap ''id'' = providerID | _ \<Rightarrow> False)"

definition notDisabled :: "jv \<Rightarrow> bool" where
  "notDisabled svc =
     (case svc of JObj svcMap \<Rightarrow> map_of svcMap ''enabled'' \<noteq> Some (JBool False) | _ \<Rightarrow> False)"

definition asObject :: "jv option \<Rightarrow> jobj option" where
  "asObject v = (case v of Some (JObj m) \<Rightarrow> Some m | _ \<Rightarrow> None)"

lemma findByProviderID_find:
  "findByProviderID providerID svcs = asObject (find (hasID providerID) svcs)"
  by (induction svcs) (auto simp: hasID_def asObject_def split: jv.splits)

lemma firstEnabled_find:
  "firstEnabled svcs = asObject (find notDisabled svcs)"
  by (induction svcs) (auto simp: notDisabled_def asObject_def split: jv.splits)

lemma selectSummaryService_char:
  "selectSummaryService svcs providerID =
     (case (if providerID = [] then None else asObject (find (hasID providerID) svcs)) of
        Some svcMap \<Rightarrow> Some svcMap
      | None \<Rightarrow> asObject (find notDisabled svcs))"
  by (auto simp: selectSummaryService_def findByProviderID_find firstEnabled_find
      split: option.splits)


definition summaryModel :: "jobj \<Rightarrow> string \<Rightarrow> string" where
  "summaryModel svcMap modelID =
     (if modelID = [] then defaultModel (fst (decodeService svcMap)) else modelID)"

definition summaryCall ::
  "env \<Rightarrow> string \<Rightarrow> jobj \<Rightarrow> string \<Rightarrow> session \<Rightarrow> world
     \<Rightarrow> (string \<times> jobj list \<times> error option) \<times> world" where
  "summaryCall e sid svcMap modelID sess w =
     callLLMService e Background sid (fst (decodeService svcMap)) (summaryMessages sess)
       (summaryModel svcMap modelID) True w"

lemma stableView_session:
  assumes "stableView w1 = stableView w" "sessions w k = Some s"
  shows "\<exists>s1. sessions w1 k = Some s1 \<and> messages s1 = messages s \<and> title s1 = title s
              \<and> summary s1 = summary s"
proof -
  from assms(1) have "stableView w1 k = stableView w k" by simp
  with assms(2) show ?thesis by (auto simp: stableView_def)
qed

lemma SummarizeSession_success:
  assumes s: "sessions w sid = Some sess"
    and c: "map_of (config w) ''customServices'' = Some (JArr svcs)"
    and sel: "selectSummaryService svcs providerID = Some svcMap"
    and ok: "snd (snd (fst (summaryCall e sid svcMap modelID sess w))) = None"
  shows "fst (SummarizeSession e sid providerID modelID w)
           = Inr (summaryResult (fst (fst (summaryCall e sid svcMap modelID sess w)))
                    (length (messages sess)) (svcID (fst (decodeService svcMap)))
                    (summaryModel svcMap modelID))"
    and "map_option summary (sessions (snd (SummarizeSession e sid providerID modelID w)) sid)
           = Some (fst (fst (summaryCall e sid svcMap modelID sess w)))"
proof -
  obtain summ turns er w1 where
    call: "summaryCall e sid svcMap modelID sess w = ((summ, turns, er), w1)"
    by (metis prod.exhaust)
  with ok have er: "er = None" by simp
  from stableView_callLLMService [of e Background sid "fst (decodeService svcMap)"
         "summaryMessages sess" "summaryModel svcMap modelID" True w] call
  have sv: "stableView w1 = stableView w" by (simp add: summaryCall_def)
  from stableView_session [OF sv s] obtain s1 where
    s1: "sessions w1 sid = Some s1" "messages s1 = messages sess" by blast
  have g: "GetSession w sid = Inr sess" using s by (simp add: GetSession_def)
  have r: "SummarizeSession e sid providerID modelID w
           = (Inr (summaryResult summ (length (messages s1)) (svcID (fst (decodeService svcMap)))
                     (summaryModel svcMap modelID)), storeSummary sid summ w1)"
    using call [unfolded summaryCall_def summaryModel_def] er s1
    by (simp add: SummarizeSession_def g c sel Let_def summaryModel_def)
  show "fst (SummarizeSession e sid providerID modelID w)
           = Inr (summaryResult (fst (fst (summaryCall e sid svcMap modelID sess w)))
                    (length (messages sess)) (svcID (fst (decodeService svcMap)))
                    (summaryModel svcMap modelID))"
    unfolding r call using s1 by simp
  show "map_option summary (sessions (snd (SummarizeSession e sid providerID modelID w)) sid)
           = Some (fst (fst (summaryCall e sid svcMap modelID sess w)))"
    unfolding r call using s1 by (simp add: storeSummary_def)
qed

lemma SummarizeSession_failure:
  assumes s: "sessions w sid = Some sess"
    and c: "map_of (config w) ''customServices'' = Some (JArr svcs)"
    and sel: "selectSummaryService svcs providerID = Some svcMap"
    and ko: "snd (snd (fst (summaryCall e sid svcMap modelID sess w))) \<noteq> None"
  shows "fst (SummarizeSession e sid providerID modelID w)
           = Inr (simpleSummary sess providerID modelID)"
    and "map_option summary (sessions (snd (SummarizeSession e sid providerID modelID w)) sid)
           = Some (summary sess)"
proof -
  obtain summ turns er w1 where
    call: "summaryCall e sid svcMap modelID sess w = ((summ, turns, er), w1)"
    by (metis prod.exhaust)
  with ko obtain err where er: "er = Some err" by auto
  from stableView_callLLMService [of e Background sid "fst (decodeService svcMap)"
         "summaryMessages sess" "summaryModel svcMap modelID" True w] call
  have sv: "stableView w1 = stableView w" by (simp add: summaryCall_def)
  from stableView_session [OF sv s] obtain s1 where
    s1: "sessions w1 sid = Some s1" "messages s1 = messages sess" "title s1 = title sess"
        "summary s1 = summary sess" by blast
  have g: "GetSession w sid = Inr sess" using s by (simp add: GetSession_def)
  have r: "SummarizeSession e sid providerID modelID w
           = (Inr (simpleSummary s1 providerID modelID), w1)"
    using call [unfolded summaryCall_def summaryModel_def] er s1
    by (simp add: SummarizeSession_def g c sel Let_def summaryModel_def)
  show "fst (SummarizeSession e sid providerID modelID w)
           = Inr (simpleSummary sess providerID modelID)"
    unfolding r using s1 by (simp add: simpleSummary_def)
  show "map_option summary (sessions (snd (SummarizeSession e sid providerID modelID w)) sid)
           = Some (summary sess)"
    unfolding r using s1 by simp
qed

lemma SummarizeSession_world:
  assumes s: "sessions w sid = Some sess"
    and c: "map_of (config w) ''customServices'' = Some (JArr svcs)"
    and sel: "selectSummaryService svcs providerID = Some svcMap"
  shows "requests (snd (SummarizeSession e sid providerID modelID w))
           = requests (snd (summaryCall e sid svcMap modelID sess w))
         \<and> effects (snd (SummarizeSession e sid providerID modelID w))
           = effects (snd (summaryCall e sid svcMap modelID sess w))"
proof -
  obtain summ turns er w1 where
    call: "summaryCall e sid svcMap modelID sess w = ((summ, turns, er), w1)"
    by (metis prod.exhaust)
  have g: "GetSession w sid = Inr sess" using s by (simp add: GetSession_def)
  show ?thesis
    using call [unfolded summaryCall_def summaryModel_def]
    by (cases er)
       (simp_all add: SummarizeSession_def g c sel Let_def summaryModel_def summaryCall_def
          storeSummary_def split: option.splits)
qed

lemma lastN_drop: "lastN n xs = drop (length xs - n) xs"
  by (simp add: lastN_def)

lemma historyMessages_records:
  "m \<in> set (historyMessages xs) \<Longrightarrow>
   \<exists>role content. m = [(''role'', JStr role), (''content'', JStr content)]"
  by (auto simp: historyMessages_def apiMessage_def split: option.splits if_splits)


definition xmlService :: customLLMService where
  "xmlService = baseService\<lparr>provider := ''ollama''\<rparr>"

definition chatResponse :: "string \<Rightarrow> jobj" where
  "chatResponse content =
     [(''choices'', JArr [JObj [(''message'', JObj [(''content'', JStr content)])]])]"

definition okResponse :: "string \<Rightarrow> httpOutcome" where
  "okResponse content =
     Response 200 (marshal (JObj (chatResponse content))) (Inr (chatResponse content))"

definition smallClockEnv :: env where
  "smallClockEnv = testEnv\<lparr>clockAt := (\<lambda>k. int k)\<rparr>"

definition statusCallText :: string where
  "statusCallText = ''<tool_call><name>git_status</name><args></args></tool_call>''"

definition toolThenAnswerEnv :: env where
  "toolThenAnswerEnv =
     smallClockEnv\<lparr>httpDo := (\<lambda>k. if k = 0 then okResponse statusCallText
                                  else okResponse ''A summary.'')\<rparr>"

definition answerEnv :: env where
  "answerEnv = smallClockEnv\<lparr>httpDo := (\<lambda>k. okResponse ''A summary.'')\<rparr>"

definition mainSvc :: jobj where
  "mainSvc = [(''id'', JStr ''main''), (''name'', JStr ''Main''),
              (''baseUrl'', JStr ''http://localhost/v1''), (''provider'', JStr ''ollama''),
              (''defaultModel'', JStr ''m''), (''enabled'', JBool True)]"

definition offSvc :: jobj where
  "offSvc = [(''id'', JStr ''off''), (''name'', JStr ''Off''),
             (''baseUrl'', JStr ''http://localhost/v2''), (''provider'', JStr ''ollama''),
             (''defaultModel'', JStr ''m2''), (''enabled'', JBool False)]"

definition priorSession :: session where
  "priorSession =
     \<lparr>sessID = ''s1'', title = ''T'', summary = [], createdAt = 5, updatedAt = 5,
      messages = [[(''info'', JObj [(''role'', JStr ''user'')]),
                   (''parts'', JArr [JObj [(''type'', JStr ''text''),
                                           (''text'', JStr ''prior message'')]])]],
      parentID = [], todos = []\<rparr>"

definition summaryWorld :: world where
  "summaryWorld =
     emptyWorld\<lparr>sessions := [''s1'' \<mapsto> priorSession],
                config := [(''customServices'', JArr [JObj mainSvc, JObj offSvc])]\<rparr>"

lemma summaryWorld_session: "sessions summaryWorld ''s1'' = Some priorSession"
  by (simp add: summaryWorld_def emptyWorld_def)

lemma summaryWorld_services:
  "map_of (config summaryWorld) ''customServices'' = Some (JArr [JObj mainSvc, JObj offSvc])"
  by (simp add: summaryWorld_def emptyWorld_def)

lemma select_main: "selectSummaryService [JObj mainSvc, JObj offSvc] ''main'' = Some mainSvc"
  by code_simp

lemma select_off: "selectSummaryService [JObj mainSvc, JObj offSvc] ''off'' = Some offSvc"
  by code_simp

lemma find_off: "find (hasID ''off'') [JObj mainSvc, JObj offSvc] = Some (JObj offSvc)"
  by code_simp

lemma tool_then_answer_run:
  "(case summaryCall toolThenAnswerEnv ''s1'' mainSvc [] priorSession summaryWorld of
      ((summ, turns, er), w1) \<Rightarrow> (er, length turns, requests w1, effects w1))
   = (None, 2, 2, [RunCommand ''git status --short''])"
  by code_simp

lemma answer_run:
  "(case summaryCall answerEnv ''s1'' offSvc [] priorSession summaryWorld of
      ((summ, turns, er), w1) \<Rightarrow> (summ, er, requests w1, effects w1))
   = (''A summary.'', None, 1, [])"
  by code_simp

lemma answer_run_main:
  "(case summaryCall answerEnv ''s1'' mainSvc [] priorSession summaryWorld of
      ((summ, turns, er), w1) \<Rightarrow> (summ, er, requests w1, effects w1))
   = (''A summary.'', None, 1, [])"
  by code_simp

text \<open>
  Claim C10: \<open>SummarizeSession\<close> selects the custom service whose id equals the given
  provider id without looking at its \<open>enabled\<close> flag, and calls it; the flag is consulted
  only by the fallback, which takes the first entry that is not disabled when the
  provider id is empty or matches no entry.
\<close>

theorem summary_service_selection:
  "selectSummaryService svcs providerID =
     (case (if providerID = [] then None else asObject (find (hasID providerID) svcs)) of
        Some svcMap \<Rightarrow> Some svcMap
      | None \<Rightarrow> asObject (find notDisabled svcs))
   \<and> (sessions w sid = Some sess
        \<and> map_of (config w) ''customServices'' = Some (JArr svcs)
        \<and> providerID \<noteq> []
        \<and> find (hasID providerID) svcs = Some (JObj svcMap) \<longrightarrow>
        selectSummaryService svcs providerID = Some svcMap
        \<and> requests (snd (SummarizeSession e sid providerID modelID w))
            = requests (snd (summaryCall e sid svcMap modelID sess w))
        \<and> (snd (snd (fst (summaryCall e sid svcMap modelID sess w))) = None \<longrightarrow>
             fst (SummarizeSession e sid providerID modelID w)
               = Inr (summaryResult (fst (fst (summaryCall e sid svcMap modelID sess w)))
                        (length (messages sess)) (svcID (fst (decodeService svcMap)))
                        (summaryModel svcMap modelID))))"
proof -
  have one: "selectSummaryService svcs providerID =
     (case (if providerID = [] then None else asObject (find (hasID providerID) svcs)) of
        Some svcMap \<Rightarrow> Some svcMap
      | None \<Rightarrow> asObject (find notDisabled svcs))"
    by (rule selectSummaryService_char)
  have two: "selectSummaryService svcs providerID = Some svcMap
        \<and> requests (snd (SummarizeSession e sid providerID modelID w))
            = requests (snd (summaryCall e sid svcMap modelID sess w))
        \<and> (snd (snd (fst (summaryCall e sid svcMap modelID sess w))) = None \<longrightarrow>
             fst (SummarizeSession e sid providerID modelID w)
               = Inr (summaryResult (fst (fst (summaryCall e sid svcMap modelID sess w)))
                        (length (messages sess)) (svcID (fst (decodeService svcMap)))
                        (summaryModel svcMap modelID)))"
    if h: "sessions w sid = Some sess" "map_of (config w) ''customServices'' = Some (JArr svcs)"
          "providerID \<noteq> []" "find (hasID providerID) svcs = Some (JObj svcMap)"
  proof -
    from h(3,4) have sel: "selectSummaryService svcs providerID = Some svcMap"
      unfolding one by (simp add: asObject_def)
    from SummarizeSession_world [OF h(1) h(2) sel, of e modelID]
         SummarizeSession_success (1) [OF h(1) h(2) sel, of e modelID] sel
    show ?thesis by blast
  qed
  from one two show ?thesis by blast
qed

theorem summary_service_selection_witness:
  "map_of offSvc ''enabled'' = Some (JBool False)
   \<and> find (hasID ''off'') [JObj mainSvc, JObj offSvc] = Some (JObj offSvc)
   \<and> selectSummaryService [JObj mainSvc, JObj offSvc] ''off'' = Some offSvc
   \<and> requests (snd (SummarizeSession answerEnv ''s1'' ''off'' [] summaryWorld)) = 1
   \<and> fst (SummarizeSession answerEnv ''s1'' ''off'' [] summaryWorld)
       = Inr (summaryResult ''A summary.'' 1 ''off'' ''m2'')"
proof -
  have en: "map_of offSvc ''enabled'' = Some (JBool False)" by code_simp
  have ne: "''off'' \<noteq> ([] :: string)" by simp
  obtain summ turns er w1 where
    call: "summaryCall answerEnv ''s1'' offSvc [] priorSession summaryWorld = ((summ, turns, er), w1)"
    by (metis prod.exhaust)
  with answer_run have v: "summ = ''A summary.''" "er = None" "requests w1 = 1" by simp_all
  have d: "svcID (fst (decodeService offSvc)) = ''off''" "summaryModel offSvc [] = ''m2''"
          "length (messages priorSession) = 1"
    by code_simp+
  from summary_service_selection
         [of "[JObj mainSvc, JObj offSvc]" "''off''" summaryWorld "''s1''" priorSession offSvc
             answerEnv "[]"]
       summaryWorld_session summaryWorld_services ne find_off
  have "selectSummaryService [JObj mainSvc, JObj offSvc] ''off'' = Some offSvc
        \<and> requests (snd (SummarizeSession answerEnv ''s1'' ''off'' [] summaryWorld))
            = requests (snd (summaryCall answerEnv ''s1'' offSvc [] priorSession summaryWorld))
        \<and> (snd (snd (fst (summaryCall answerEnv ''s1'' offSvc [] priorSession summaryWorld))) = None \<longrightarrow>
             fst (SummarizeSession answerEnv ''s1'' ''off'' [] summaryWorld)
               = Inr (summaryResult (fst (fst (summaryCall answerEnv ''s1'' offSvc [] priorSession summaryWorld)))
                        (length (messages priorSession)) (svcID (fst (decodeService offSvc)))
                        (summaryModel offSvc [])))"
    by blast
  then show ?thesis
    unfolding call d using v en find_off by simp
qed

text \<open>
  Claim C4, as stated: \<open>SummarizeSession\<close> performs a single one-shot call with no
  tool-use loop. This fails: the messages are passed to \<open>callLLMService\<close>, the same
  bounded tool loop that \<open>sendMessage\<close> uses, in plan mode. When the first reply of the
  service carries a \<open>git_status\<close> tool call, the command is run and a second request is
  sent before the summary is returned.
\<close>

theorem SummarizeSession_runs_tool_loop:
  "requests (snd (SummarizeSession toolThenAnswerEnv ''s1'' ''main'' [] summaryWorld)) = 2
   \<and> effects (snd (SummarizeSession toolThenAnswerEnv ''s1'' ''main'' [] summaryWorld))
       = [RunCommand ''git status --short'']"
proof -
  obtain summ turns er w1 where
    call: "summaryCall toolThenAnswerEnv ''s1'' mainSvc [] priorSession summaryWorld
           = ((summ, turns, er), w1)"
    by (metis prod.exhaust)
  with tool_then_answer_run
  have v: "requests w1 = 2" "effects w1 = [RunCommand ''git status --short'']" by simp_all
  from SummarizeSession_world [OF summaryWorld_session summaryWorld_services select_main,
         of toolThenAnswerEnv "[]"]
  show ?thesis unfolding call using v by simp
qed

text \<open>
  Claim C4, amended: \<open>SummarizeSession\<close> assembles the last 50 stored messages (those
  that normalise, with a non-blank role) as \<open>{role, content}\<close> records plus a final user
  message requesting a concise summary, and passes them to \<open>callLLMService\<close>, the bounded
  tool-use loop, in plan mode with a background context and the selected service. When
  that call succeeds its text is stored into \<open>session.summary\<close> and returned; when it
  fails the fallback text is returned and the stored summary is unchanged.
\<close>

theorem SummarizeSession_via_tool_loop:
  "summaryMessages sess
     = historyMessages (drop (length (messages sess) - 50) (messages sess))
       @ [[(''role'', JStr ''user''), (''content'', JStr summaryRequest)]]
   \<and> (\<forall>m \<in> set (summaryMessages sess).
         \<exists>role content. m = [(''role'', JStr role), (''content'', JStr content)])
   \<and> summaryCall e sid svcMap modelID sess w
       = callLLMService e Background sid (fst (decodeService svcMap)) (summaryMessages sess)
           (if modelID = [] then defaultModel (fst (decodeService svcMap)) else modelID) True w
   \<and> (sessions w sid = Some sess
        \<and> map_of (config w) ''customServices'' = Some (JArr svcs)
        \<and> selectSummaryService svcs providerID = Some svcMap \<longrightarrow>
        (snd (snd (fst (summaryCall e sid svcMap modelID sess w))) = None \<longrightarrow>
           fst (SummarizeSession e sid providerID modelID w)
             = Inr (summaryResult (fst (fst (summaryCall e sid svcMap modelID sess w)))
                      (length (messages sess)) (svcID (fst (decodeService svcMap)))
                      (summaryModel svcMap modelID))
           \<and> map_option summary (sessions (snd (SummarizeSession e sid providerID modelID w)) sid)
               = Some (fst (fst (summaryCall e sid svcMap modelID sess w))))
        \<and> (snd (snd (fst (summaryCall e sid svcMap modelID sess w))) \<noteq> None \<longrightarrow>
             fst (SummarizeSession e sid providerID modelID w)
               = Inr (simpleSummary sess providerID modelID)
             \<and> map_option summary (sessions (snd (SummarizeSession e sid providerID modelID w)) sid)
                 = Some (summary sess)))"
proof -
  have a: "summaryMessages sess
     = historyMessages (drop (length (messages sess) - 50) (messages sess))
       @ [[(''role'', JStr ''user''), (''content'', JStr summaryRequest)]]"
    by (simp add: summaryMessages_def lastN_drop apiMessage_def)
  have b: "\<forall>m \<in> set (summaryMessages sess).
         \<exists>role content. m = [(''role'', JStr role), (''content'', JStr content)]"
    unfolding a using historyMessages_records by auto
  have c: "summaryCall e sid svcMap modelID sess w
       = callLLMService e Background sid (fst (decodeService svcMap)) (summaryMessages sess)
           (if modelID = [] then defaultModel (fst (decodeService svcMap)) else modelID) True w"
    by (simp add: summaryCall_def summaryModel_def)
  from a b c SummarizeSession_success [of w sid sess svcs providerID svcMap e modelID]
       SummarizeSession_failure [of w sid sess svcs providerID svcMap e modelID]
  show ?thesis by blast
qed

theorem SummarizeSession_via_tool_loop_witness:
  "sessions summaryWorld ''s1'' = Some priorSession
   \<and> selectSummaryService [JObj mainSvc, JObj offSvc] ''main'' = Some mainSvc
   \<and> summaryMessages priorSession
       = [[(''role'', JStr ''user''), (''content'', JStr ''prior message'')],
          [(''role'', JStr ''user''), (''content'', JStr summaryRequest)]]
   \<and> fst (SummarizeSession answerEnv ''s1'' ''main'' [] summaryWorld)
       = Inr (summaryResult ''A summary.'' 1 ''main'' ''m'')
   \<and> map_option summary (sessions (snd (SummarizeSession answerEnv ''s1'' ''main'' [] summaryWorld)) ''s1'')
       = Some ''A summary.''"
proof -
  obtain summ turns er w1 where
    call: "summaryCall answerEnv ''s1'' mainSvc [] priorSession summaryWorld = ((summ, turns, er), w1)"
    by (metis prod.exhaust)
  with answer_run_main have v: "summ = ''A summary.''" "er = None" by simp_all
  have d: "svcID (fst (decodeService mainSvc)) = ''main''" "summaryModel mainSvc [] = ''m''"
          "length (messages priorSession) = 1"
    by code_simp+
  have m: "summaryMessages priorSession
       = [[(''role'', JStr ''user''), (''content'', JStr ''prior message'')],
          [(''role'', JStr ''user''), (''content'', JStr summaryRequest)]]"
    by code_simp
  from SummarizeSession_via_tool_loop
         [of priorSession answerEnv "''s1''" mainSvc "[]" summaryWorld
             "[JObj mainSvc, JObj offSvc]" "''main''"]
       summaryWorld_session summaryWorld_services select_main
  have "snd (snd (fst (summaryCall answerEnv ''s1'' mainSvc [] priorSession summaryWorld))) = None \<longrightarrow>
           fst (SummarizeSession answerEnv ''s1'' ''main'' [] summaryWorld)
             = Inr (summaryResult (fst (fst (summaryCall answerEnv ''s1'' mainSvc [] priorSession summaryWorld)))
                      (length (messages priorSession)) (svcID (fst (decodeService mainSvc)))
                      (summaryModel mainSvc []))
           \<and> map_option summary (sessions (snd (SummarizeSession answerEnv ''s1'' ''main'' [] summaryWorld)) ''s1'')
               = Some (fst (fst (summaryCall answerEnv ''s1'' mainSvc [] priorSession summaryWorld)))"
    by blast
  then have "fst (SummarizeSession answerEnv ''s1'' ''main'' [] summaryWorld)
             = Inr (summaryResult ''A summary.'' 1 ''main'' ''m'')
           \<and> map_option summary (sessions (snd (SummarizeSession answerEnv ''s1'' ''main'' [] summaryWorld)) ''s1'')
               = Some ''A summary.''"
    unfolding call d using v by simp
  with summaryWorld_session select_main m show ?thesis by blast
qed

section \<open>Message append\<close>

lemma stableView_messages_eq:
  assumes "stableView w' = stableView w"
  shows "map_option messages (sessions w' sid) = map_option messages (sessions w sid)"
proof -
  from assms have "stableView w' sid = stableView w sid" by simp
  then show ?thesis
    by (cases "sessions w' sid"; cases "sessions w sid") (simp_all add: stableView_def)
qed

definition todoCallText :: string where
  "todoCallText = ''<tool_call><name>manage_todo</name><args><action>add</action><content>write tests</content></args></tool_call>''"

definition failAfterToolEnv :: env where
  "failAfterToolEnv =
     smallClockEnv\<lparr>httpDo := (\<lambda>k. if k = 0 then okResponse todoCallText
                                  else Response 500 ''upstream failure'' (Inl ''invalid character''))\<rparr>"

definition oneSession :: world where
  "oneSession =
     emptyWorld\<lparr>sessions := [''s1'' \<mapsto>
        \<lparr>sessID = ''s1'', title = ''T'', summary = [], createdAt = 0, updatedAt = 0,
         messages = [], parentID = [], todos = []\<rparr>]\<rparr>"

lemma failing_run:
  "(case sendLLMMessageInternal failAfterToolEnv Background ''s1'' ''hi'' xmlService ''m'' oneSession of
      (r, w1) \<Rightarrow> (isl r, requests w1, map_option todos (sessions w1 ''s1'')))
   = (True, 2, Some [\<lparr>todoID = ''todo_1'', todoContent = ''write tests'',
                       todoStatus = ''pending'', todoPriority = ''medium''\<rparr>])"
  by code_simp

lemma successful_run:
  "(case sendLLMMessageInternal answerEnv Background ''s1'' ''hi'' xmlService ''m'' oneSession of
      (r, w1) \<Rightarrow> (isl r,
         map_option (\<lambda>s. map (\<lambda>m. (infoStr m ''role'', infoInt m ''createdAt'')) (messages s))
           (sessions w1 ''s1''),
         map_option updatedAt (sessions w1 ''s1'')))
   = (False, Some [(Some ''user'', Some 0), (Some ''assistant'', Some 100)], Some 100)"
  by code_simp

lemma oneSession_session:
  "map_option todos (sessions oneSession ''s1'') = Some []
   \<and> map_option messages (sessions oneSession ''s1'') = Some []"
  by (simp add: oneSession_def emptyWorld_def)

text \<open>
  Claim C3, as stated: if the LLM call returns an error, the session state is unchanged.
  This fails for the todo list: tools run inside the call, before its outcome is known,
  and \<open>manage_todo\<close> writes the session. Here the first reply of the service asks for a
  todo to be added and the second request fails with status 500: \<open>sendLLMMessageInternal\<close>
  returns the error, and the session has gained a todo item.
\<close>

theorem failed_call_keeps_todo_changes:
  "isl (fst (sendLLMMessageInternal failAfterToolEnv Background ''s1'' ''hi'' xmlService ''m'' oneSession))
   \<and> map_option todos (sessions oneSession ''s1'') = Some []
   \<and> map_option todos
        (sessions (snd (sendLLMMessageInternal failAfterToolEnv Background ''s1'' ''hi'' xmlService ''m''
                          oneSession)) ''s1'')
       = Some [\<lparr>todoID = ''todo_1'', todoContent = ''write tests'',
                  todoStatus = ''pending'', todoPriority = ''medium''\<rparr>]"
proof -
  obtain r w1 where
    run: "sendLLMMessageInternal failAfterToolEnv Background ''s1'' ''hi'' xmlService ''m'' oneSession
          = (r, w1)"
    by (metis prod.exhaust)
  with failing_run oneSession_session show ?thesis by simp
qed

text \<open>
  Claim C3, amended: within a single call of \<open>sendLLMMessageInternal\<close> the message append
  is atomic. If the call returns an error, no message is persisted (neither the user
  frame nor any assistant frame) and the id, title, summary, creation time, message
  list and parent of every session are unchanged; the todo list and \<open>updatedAt\<close> of the
  session may have been changed by a \<open>manage_todo\<close> tool call that ran before the error.
  On success exactly two messages are appended, user then assistant, the assistant's
  \<open>createdAt\<close> equals the user's \<open>createdAt\<close> plus 100 ms, and \<open>session.updatedAt\<close> is set
  to that value.
\<close>

theorem message_append_atomic:
  "(sendLLMMessageInternal e c sid message cfg modelID w = (Inl err, w') \<longrightarrow>
      stableView w' = stableView w
      \<and> map_option messages (sessions w' sid) = map_option messages (sessions w sid))
   \<and> (sendLLMMessageInternal e c sid message cfg modelID w = (Inr assistantMsg, w') \<longrightarrow>
        (\<exists>sess sess' userMsg now.
           sessions w sid = Some sess \<and> sessions w' sid = Some sess'
           \<and> messages sess' = messages sess @ [userMsg, assistantMsg]
           \<and> infoStr userMsg ''role'' = Some ''user''
           \<and> infoStr assistantMsg ''role'' = Some ''assistant''
           \<and> infoInt userMsg ''createdAt'' = Some now
           \<and> infoInt assistantMsg ''createdAt'' = Some (now + 100)
           \<and> updatedAt sess' = now + 100))"
  using sendLLMMessageInternal_error [of e c sid message cfg modelID w err w']
        sendLLMMessageInternal_success [of e c sid message cfg modelID w assistantMsg w']
        stableView_messages_eq [of w' w sid]
  by blast

theorem message_append_atomic_witness:
  "isl (fst (sendLLMMessageInternal failAfterToolEnv Background ''s1'' ''hi'' xmlService ''m'' oneSession))
   \<and> stableView (snd (sendLLMMessageInternal failAfterToolEnv Background ''s1'' ''hi'' xmlService ''m''
                        oneSession))
       = stableView oneSession
   \<and> map_option messages
        (sessions (snd (sendLLMMessageInternal failAfterToolEnv Background ''s1'' ''hi'' xmlService ''m''
                          oneSession)) ''s1'')
       = Some []
   \<and> (\<exists>assistantMsg userMsg.
         fst (sendLLMMessageInternal answerEnv Background ''s1'' ''hi'' xmlService ''m'' oneSession)
           = Inr assistantMsg
         \<and> map_option messages
              (sessions (snd (sendLLMMessageInternal answerEnv Background ''s1'' ''hi'' xmlService ''m''
                                oneSession)) ''s1'')
             = Some [userMsg, assistantMsg]
         \<and> infoInt userMsg ''createdAt'' = Some 0
         \<and> infoInt assistantMsg ''createdAt'' = Some 100)
   \<and> map_option updatedAt
        (sessions (snd (sendLLMMessageInternal answerEnv Background ''s1'' ''hi'' xmlService ''m''
                          oneSession)) ''s1'')
       = Some 100"
proof -
  obtain r w1 where
    run1: "sendLLMMessageInternal failAfterToolEnv Background ''s1'' ''hi'' xmlService ''m'' oneSession
           = (r, w1)"
    by (metis prod.exhaust)
  with failing_run have "isl r" by simp
  then obtain err where r: "r = Inl err" by (cases r) simp_all
  from message_append_atomic
         [of failAfterToolEnv Background "''s1''" "''hi''" xmlService "''m''" oneSession err w1]
       run1 r
  have f: "stableView w1 = stableView oneSession"
          "map_option messages (sessions w1 ''s1'') = map_option messages (sessions oneSession ''s1'')"
    by simp_all
  obtain r2 w2 where
    run2: "sendLLMMessageInternal answerEnv Background ''s1'' ''hi'' xmlService ''m'' oneSession
           = (r2, w2)"
    by (metis prod.exhaust)
  with successful_run have v: "\<not> isl r2"
      "map_option (\<lambda>s. map (\<lambda>m. (infoStr m ''role'', infoInt m ''createdAt'')) (messages s))
         (sessions w2 ''s1'') = Some [(Some ''user'', Some 0), (Some ''assistant'', Some 100)]"
      "map_option updatedAt (sessions w2 ''s1'') = Some 100"
    by simp_all
  from v(1) obtain assistantMsg where r2: "r2 = Inr assistantMsg" by (cases r2) simp_all
  from message_append_atomic
         [of answerEnv Background "''s1''" "''hi''" xmlService "''m''" oneSession _ w2 assistantMsg]
       run2 r2
  obtain sess sess' userMsg now where s:
    "sessions oneSession ''s1'' = Some sess" "sessions w2 ''s1'' = Some sess'"
    "messages sess' = messages sess @ [userMsg, assistantMsg]"
    "infoInt userMsg ''createdAt'' = Some now"
    "infoInt assistantMsg ''createdAt'' = Some (now + 100)"
    by blast
  from s(1) oneSession_session have m0: "messages sess = []" by simp
  from s(2,3) m0 v(2) s(4) have n: "now = 0" by simp
  from s m0 n have g: "map_option messages (sessions w2 ''s1'') = Some [userMsg, assistantMsg]"
      "infoInt userMsg ''createdAt'' = Some 0" "infoInt assistantMsg ''createdAt'' = Some 100"
    by simp_all
  from \<open>isl r\<close> f oneSession_session g v(3) show ?thesis
    unfolding run1 run2 fst_conv snd_conv r2 by auto
qed

end
